theory Spec2Isabelle
  imports Main
begin

section \<open>Coordinates and errors\<close>

text \<open>
  Modelled from the spec: the class \<open>CubeCoordinate\<close> of \<open>mixite.coord\<close>. It
  stores the two axes \<open>gridX\<close> and \<open>gridZ\<close>; two coordinates are equal iff both
  axes match.
\<close>

datatype CubeCoordinate = CubeCoordinate (gridX: int) (gridZ: int)

text \<open>
  Modelled from the spec: the orientation tag \<open>CubeCoordinate.FLAT_TOP\<close>, a string;
  every other string selects the pointy-top branch.
\<close>

definition FLAT_TOP :: string where
  "FLAT_TOP = ''FLAT_TOP''"

text \<open>
  \<open>GridLayoutException\<close> carries its message. \<open>OverflowError\<close> is what Python raises
  when an \<open>int\<close> is too large to be converted to a \<open>float\<close>, and \<open>ValueError\<close> what
  \<open>str\<close> raises for an \<open>int\<close> of more than 4300 decimal digits.
\<close>

datatype error = GridLayoutException string | OverflowError | ValueError

fun is_GridLayoutException :: "error + 'a \<Rightarrow> bool" where
  "is_GridLayoutException (Inl (GridLayoutException m)) = True"
| "is_GridLayoutException (Inl OverflowError) = False"
| "is_GridLayoutException (Inl ValueError) = False"
| "is_GridLayoutException (Inr v) = False"

section \<open>Python helpers\<close>

text \<open>\<open>range(a, b)\<close>: the integers from \<open>a\<close> up to \<open>b - 1\<close>; empty when \<open>b \<le> a\<close>.\<close>

definition range_py :: "int \<Rightarrow> int \<Rightarrow> int list" where
  "range_py a b = [a..b - 1]"

text \<open>
  \<open>str(n)\<close> for an integer: decimal digits, with a minus sign when negative. CPython
  limits the conversion to 4300 digits (the default of \<open>sys.set_int_max_str_digits\<close>,
  the sign not counted) and raises \<open>ValueError\<close> beyond.
\<close>

fun str_nat :: "nat \<Rightarrow> string" where
  "str_nat n = (if n < 10 then [char_of (48 + n)]
                else str_nat (n div 10) @ [char_of (48 + n mod 10)])"

definition int_max_str_digits :: nat where
  "int_max_str_digits = 4300"

definition str :: "int \<Rightarrow> error + string" where
  "str i =
     (if 10 ^ int_max_str_digits \<le> \<bar>i\<bar> then Inl ValueError
      else Inr (if i < 0 then ''-'' @ str_nat (nat (- i)) else str_nat (nat i)))"

section \<open>Size validation\<close>

text \<open>
  What \<open>raise GridLayoutException("Attempted to build a grid with invalid size "
  + str(width) + ", " + str(height) + requirement)\<close> raises: the message is built
  first, left to right, so a \<open>ValueError\<close> of \<open>str\<close> takes the place of the
  \<open>GridLayoutException\<close>.
\<close>

definition invalid_size :: "int \<Rightarrow> int \<Rightarrow> string \<Rightarrow> error" where
  "invalid_size width height requirement =
     (case str width of
        Inl e \<Rightarrow> e
      | Inr w \<Rightarrow>
          (case str height of
             Inl e \<Rightarrow> e
           | Inr h \<Rightarrow>
               GridLayoutException (''Attempted to build a grid with invalid size ''
                 @ w @ '', '' @ h @ requirement)))"

definition check_size_rectangle :: "int \<Rightarrow> int \<Rightarrow> error + unit" where
  "check_size_rectangle width height =
     (if \<not> (width > 0 \<and> height > 0)
      then Inl (invalid_size width height ''. Rectangle dimensions must be larger than zero.'')
      else Inr ())"

definition check_size_triangle :: "int \<Rightarrow> int \<Rightarrow> error + unit" where
  "check_size_triangle width height =
     (if \<not> (0 < width \<and> width = height \<and> height > 0)
      then Inl (invalid_size width height ''. Triangle dimensions must be equal and larger than zero.'')
      else Inr ())"

definition check_size_trapezoid :: "int \<Rightarrow> int \<Rightarrow> error + unit" where
  "check_size_trapezoid width height =
     (if \<not> (width > 0 \<and> height > 0)
      then Inl (invalid_size width height ''. Trapezoid dimensions must be larger than zero.'')
      else Inr ())"

definition check_size_hexagon :: "int \<Rightarrow> int \<Rightarrow> error + unit" where
  "check_size_hexagon width height =
     (if \<not> (width > 0 \<and> height > 0 \<and> width = height \<and> \<bar>height mod 2\<bar> = 1)
      then Inl (invalid_size width height ''. Hexagon dimensions must be equal, odd, and larger than zero.'')
      else Inr ())"

definition get_name_rectangle :: string where
  "get_name_rectangle = ''RECTANGULAR''"

definition get_name_triangle :: string where
  "get_name_triangle = ''TRIANGULAR''"

definition get_name_trapezoid :: string where
  "get_name_trapezoid = ''TRAPEZOID''"

definition get_name_hexagon :: string where
  "get_name_hexagon = ''HEXAGONAL''"

section \<open>Float arithmetic of the hexagon strategy\<close>

text \<open>
  The hexagon strategy computes \<open>floor(grid_size / 2.0)\<close>, \<open>round(grid_size / 4.0)\<close>
  and \<open>floor(grid_size / 4.0)\<close> in double precision. Dividing an \<open>int\<close> by a
  \<open>float\<close> first converts the \<open>int\<close> to the nearest double, a tie going to the
  neighbour with the even significand; the conversion raises \<open>OverflowError\<close> when that
  double is not finite, that is from \<open>2^1024 - 2^970\<close> on in magnitude. The double
  nearest to an integer is an integer again: \<open>round_to_double\<close> keeps the 53 leading
  bits and rounds the rest. Dividing a double by 2.0 or 4.0 is exact, and \<open>floor\<close> and
  \<open>round\<close> return exact integers, \<open>round\<close> taking a half to the even neighbour.
\<close>

fun bit_length :: "nat \<Rightarrow> nat" where
  "bit_length n = (if n = 0 then 0 else Suc (bit_length (n div 2)))"

definition float_overflows :: "int \<Rightarrow> bool" where
  "float_overflows n \<longleftrightarrow> 2 ^ 1024 - 2 ^ 970 \<le> \<bar>n\<bar>"

definition round_to_double :: "int \<Rightarrow> int" where
  "round_to_double n =
     (let a = \<bar>n\<bar>;
          bits = bit_length (nat a);
          ulp = (if bits \<le> 53 then 1 else 2 ^ (bits - 53));
          q = a div ulp;
          r = a mod ulp;
          q' = (if 2 * r > ulp \<or> (2 * r = ulp \<and> odd q) then q + 1 else q)
      in sgn n * (q' * ulp))"

text \<open>
  \<open>floor_div_float n d\<close> is \<open>floor(n / d)\<close> for an \<open>int\<close> \<open>n\<close> that converts and \<open>d\<close>
  one of the floats 2.0 and 4.0. \<open>round_quarter k\<close> is \<open>round(k / 4.0)\<close> for a double
  \<open>k\<close> of integral value, so that \<open>round(n / 4.0)\<close> is
  \<open>round_quarter (round_to_double n)\<close>.
\<close>

definition floor_div_float :: "int \<Rightarrow> int \<Rightarrow> int" where
  "floor_div_float n d = round_to_double n div d"

definition round_quarter :: "int \<Rightarrow> int" where
  "round_quarter n =
     (let q = n div 4; r = n mod 4
      in if r < 2 then q
         else if r = 2 then (if even q then q else q + 1)
         else q + 1)"

section \<open>Coordinate enumeration\<close>

text \<open>
  The rectangle strategy calls \<open>CoordinateConverter.offset_coords_to_cube_x\<close> and
  \<open>offset_coords_to_cube_z\<close>, which live in \<open>mixite.coord\<close>, outside the two
  modules embedded here; the strategy takes them as parameters.
\<close>

type_synonym converter = "int \<Rightarrow> int \<Rightarrow> string \<Rightarrow> int"

definition fetch_grid_coords_rectangle ::
  "converter \<Rightarrow> converter \<Rightarrow> int \<Rightarrow> int \<Rightarrow> string \<Rightarrow> CubeCoordinate list" where
  "fetch_grid_coords_rectangle offset_coords_to_cube_x offset_coords_to_cube_z
       width height orientation =
     foldl (\<lambda>coords y.
         foldl (\<lambda>coords x.
             let grid_x = offset_coords_to_cube_x x y orientation;
                 grid_z = offset_coords_to_cube_z x y orientation
             in coords @ [CubeCoordinate grid_x grid_z])
           coords (range_py 0 width))
       [] (range_py 0 height)"

definition fetch_grid_coords_triangle :: "int \<Rightarrow> int \<Rightarrow> string \<Rightarrow> CubeCoordinate list" where
  "fetch_grid_coords_triangle width height orientation =
     foldl (\<lambda>coords z.
         let end_x = height - z
         in foldl (\<lambda>coords x. coords @ [CubeCoordinate x z]) coords (range_py 0 end_x))
       [] (range_py 0 height)"

definition fetch_grid_coords_trapezoid :: "int \<Rightarrow> int \<Rightarrow> string \<Rightarrow> CubeCoordinate list" where
  "fetch_grid_coords_trapezoid width height orientation =
     foldl (\<lambda>coords z.
         foldl (\<lambda>coords x. coords @ [CubeCoordinate x z]) coords (range_py 0 width))
       [] (range_py 0 height)"

text \<open>
  One pass of the hexagon strategy's outer loop: the state is the list built so far
  and the current \<open>start_x\<close>, which the pass decrements; \<open>min_x\<close> is fixed before the
  loop.
\<close>

definition hexagon_row ::
  "int \<Rightarrow> int \<Rightarrow> int \<Rightarrow> string \<Rightarrow> CubeCoordinate list \<times> int \<Rightarrow> int
     \<Rightarrow> CubeCoordinate list \<times> int" where
  "hexagon_row grid_size hex_radius min_x orientation st y =
     (case st of (coords, start_x) \<Rightarrow>
        let dist_from_mid = \<bar>hex_radius - y\<bar>
        in (foldl (\<lambda>coords x.
                let z = (if FLAT_TOP = orientation then y - floor_div_float grid_size 4
                         else y)
                in coords @ [CubeCoordinate x z])
              coords
              (range_py (max start_x min_x)
                 (max start_x min_x + (2 * hex_radius) - dist_from_mid + 1)),
            start_x - 1))"

definition fetch_grid_coords_hexagon ::
  "int \<Rightarrow> int \<Rightarrow> string \<Rightarrow> error + CubeCoordinate list" where
  "fetch_grid_coords_hexagon width height orientation =
     (let grid_size = height
      in if float_overflows grid_size then Inl OverflowError
         else
           let hex_radius = floor_div_float grid_size 2;
               start_x = (if FLAT_TOP = orientation then floor_div_float grid_size 2
                          else round_quarter (round_to_double grid_size));
               min_x = start_x - hex_radius
           in Inr (fst (foldl (hexagon_row grid_size hex_radius min_x orientation)
                          ([], start_x) (range_py 0 grid_size))))"

text \<open>
  The value of \<open>start_x\<close> before the first row; the \<open>z\<close> that the inner loop gives
  to the coordinates of row \<open>y\<close>; and the coordinates one pass of the outer loop
  appends, given the current \<open>start_x\<close>: the columns from \<open>max start_x min_x\<close> through
  \<open>max start_x min_x + 2 * hex_radius - dist_from_mid\<close>, all with that \<open>z\<close>.
\<close>

definition hexagon_start_x :: "int \<Rightarrow> string \<Rightarrow> int" where
  "hexagon_start_x grid_size orientation =
     (if FLAT_TOP = orientation then floor_div_float grid_size 2
      else round_quarter (round_to_double grid_size))"

definition hexagon_z :: "int \<Rightarrow> string \<Rightarrow> int \<Rightarrow> int" where
  "hexagon_z grid_size orientation y =
     (if FLAT_TOP = orientation then y - floor_div_float grid_size 4 else y)"

definition hexagon_span ::
  "int \<Rightarrow> int \<Rightarrow> int \<Rightarrow> string \<Rightarrow> int \<Rightarrow> int \<Rightarrow> CubeCoordinate list" where
  "hexagon_span grid_size hex_radius min_x orientation start_x y =
     map (\<lambda>x. CubeCoordinate x (hexagon_z grid_size orientation y))
       [max start_x min_x..max start_x min_x + 2 * hex_radius - \<bar>hex_radius - y\<bar>]"

text \<open>
  The hexagon enumeration as the specification words it, for comparison with the
  code: the row starts at \<open>max(startX, startX - hexRadius)\<close>, where \<open>startX\<close> is the
  value that is decremented after each row.
\<close>

definition hexagon_row_spec ::
  "int \<Rightarrow> int \<Rightarrow> string \<Rightarrow> CubeCoordinate list \<times> int \<Rightarrow> int \<Rightarrow> CubeCoordinate list \<times> int" where
  "hexagon_row_spec gridSize hexRadius orientation st y =
     (case st of (coords, startX) \<Rightarrow>
        let distFromMid = \<bar>hexRadius - y\<bar>;
            z = (if FLAT_TOP = orientation then y - gridSize div 4 else y)
        in (coords @ map (\<lambda>x. CubeCoordinate x z)
                       [max startX (startX - hexRadius)
                        ..max startX (startX - hexRadius) + 2 * hexRadius - distFromMid],
            startX - 1))"

definition hexagon_coords_spec :: "int \<Rightarrow> string \<Rightarrow> CubeCoordinate list" where
  "hexagon_coords_spec gridSize orientation =
     (let hexRadius = gridSize div 2;
          startX = (if FLAT_TOP = orientation then gridSize div 2 else round_quarter gridSize)
      in fst (foldl (hexagon_row_spec gridSize hexRadius orientation) ([], startX)
                [0..gridSize - 1]))"

section \<open>The builder\<close>

text \<open>
  Modelled from the spec: the collaborators of the builder, which live in the modules
  \<open>mixite.hex\<close>, \<open>mixite.grid\<close>, \<open>mixite.storage\<close> and \<open>mixite.calculator\<close>,
  outside the two modules embedded here. The grid metadata is the record of orientation, radius,
  width and height; a hexagon record carries the shared metadata and its coordinate;
  the storage is an associative structure keyed by coordinate; the grid holds the
  metadata, the storage and the ordered hexagon list; the calculator refers to its
  grid. The radius is only stored, so its type is left open.
\<close>

record 'r GridData =
  gd_orientation :: string
  gd_radius :: 'r
  gd_width :: int
  gd_height :: int

record 'r HexagonImpl =
  hexagon_grid_data :: "'r GridData"
  hexagon_coord :: CubeCoordinate

record 'r HexagonGridImpl =
  grid_grid_data :: "'r GridData"
  storage :: "CubeCoordinate \<rightharpoonup> 'r HexagonImpl"
  hexagons :: "'r HexagonImpl list"

datatype 'r HexagonGridCalculator = HexagonGridCalculator "'r HexagonGridImpl"

record 'r GridControl =
  hex_grid :: "'r HexagonGridImpl"
  calculator :: "'r HexagonGridCalculator"
  grid_data :: "'r GridData"

definition add_coord_with_data ::
  "(CubeCoordinate \<rightharpoonup> 'r HexagonImpl) \<Rightarrow> CubeCoordinate \<Rightarrow> 'r HexagonImpl
     \<Rightarrow> (CubeCoordinate \<rightharpoonup> 'r HexagonImpl)" where
  "add_coord_with_data st coord hexagon = st(coord \<mapsto> hexagon)"

text \<open>
  The builder's effects on its collaborators are recorded in a log that every
  operation takes and returns: the enumeration of a strategy's coordinates (tagged
  with the strategy's name), the construction of a hexagon record, the insertion into
  the storage and the append to the hexagon list. A build raises by returning \<open>Inl\<close>.
  The builder's own \<open>check_size(strategy, width, height)\<close> only calls the strategy's
  \<open>check_size\<close>, so each build operation calls the one of the strategy it creates.
\<close>

datatype 'r call =
    Fetch_grid_coords string int int string
  | New_HexagonImpl "'r HexagonImpl"
  | Add_coord_with_data CubeCoordinate "'r HexagonImpl"
  | Hexagons_append "'r HexagonImpl"

definition build_grid_data :: "string \<Rightarrow> 'r \<Rightarrow> int \<Rightarrow> int \<Rightarrow> 'r GridData" where
  "build_grid_data orientation radius width height =
     \<lparr>gd_orientation = orientation, gd_radius = radius, gd_width = width, gd_height = height\<rparr>"

definition populate_storage ::
  "'r HexagonGridImpl \<Rightarrow> 'r GridData \<Rightarrow> CubeCoordinate list \<Rightarrow> 'r call list
     \<Rightarrow> 'r HexagonGridImpl \<times> 'r call list" where
  "populate_storage grid gdata coords log =
     foldl (\<lambda>(grid, log) coord.
         let hexagon = \<lparr>hexagon_grid_data = gdata, hexagon_coord = coord\<rparr>;
             grid = grid\<lparr>storage := add_coord_with_data (storage grid) coord hexagon\<rparr>;
             grid = grid\<lparr>hexagons := hexagons grid @ [hexagon]\<rparr>
         in (grid, log @ [New_HexagonImpl hexagon, Add_coord_with_data coord hexagon,
                          Hexagons_append hexagon]))
       (grid, log) coords"

definition build_rectangle ::
  "converter \<Rightarrow> converter \<Rightarrow> string \<Rightarrow> 'r \<Rightarrow> int \<Rightarrow> int \<Rightarrow> 'r call list
     \<Rightarrow> (error + 'r GridControl) \<times> 'r call list" where
  "build_rectangle offset_coords_to_cube_x offset_coords_to_cube_z
       orientation radius width height log =
     (let gdata = build_grid_data orientation radius width height
      in case check_size_rectangle width height of
           Inl e \<Rightarrow> (Inl e, log)
         | Inr _ \<Rightarrow>
             let grid = \<lparr>grid_grid_data = gdata, storage = Map.empty, hexagons = []\<rparr>;
                 coords = fetch_grid_coords_rectangle offset_coords_to_cube_x
                            offset_coords_to_cube_z width height orientation;
                 log = log @ [Fetch_grid_coords get_name_rectangle width height orientation]
             in case populate_storage grid gdata coords log of
                  (grid, log) \<Rightarrow>
                    (Inr \<lparr>hex_grid = grid, calculator = HexagonGridCalculator grid,
                          grid_data = gdata\<rparr>, log))"

definition build_hexagon ::
  "string \<Rightarrow> 'r \<Rightarrow> int \<Rightarrow> int \<Rightarrow> 'r call list \<Rightarrow> (error + 'r GridControl) \<times> 'r call list" where
  "build_hexagon orientation radius width height log =
     (let gdata = build_grid_data orientation radius width height
      in case check_size_hexagon width height of
           Inl e \<Rightarrow> (Inl e, log)
         | Inr _ \<Rightarrow>
             let grid = \<lparr>grid_grid_data = gdata, storage = Map.empty, hexagons = []\<rparr>;
                 log = log @ [Fetch_grid_coords get_name_hexagon width height orientation]
             in case fetch_grid_coords_hexagon width height orientation of
                  Inl e \<Rightarrow> (Inl e, log)
                | Inr coords \<Rightarrow>
                    (case populate_storage grid gdata coords log of
                       (grid, log) \<Rightarrow>
                         (Inr \<lparr>hex_grid = grid, calculator = HexagonGridCalculator grid,
                               grid_data = gdata\<rparr>, log)))"

definition build_triangle ::
  "string \<Rightarrow> 'r \<Rightarrow> int \<Rightarrow> int \<Rightarrow> 'r call list \<Rightarrow> (error + 'r GridControl) \<times> 'r call list" where
  "build_triangle orientation radius width height log =
     (let gdata = build_grid_data orientation radius width height
      in case check_size_triangle width height of
           Inl e \<Rightarrow> (Inl e, log)
         | Inr _ \<Rightarrow>
             let grid = \<lparr>grid_grid_data = gdata, storage = Map.empty, hexagons = []\<rparr>;
                 coords = fetch_grid_coords_triangle width height orientation;
                 log = log @ [Fetch_grid_coords get_name_triangle width height orientation]
             in case populate_storage grid gdata coords log of
                  (grid, log) \<Rightarrow>
                    (Inr \<lparr>hex_grid = grid, calculator = HexagonGridCalculator grid,
                          grid_data = gdata\<rparr>, log))"

definition build_trapezoid ::
  "string \<Rightarrow> 'r \<Rightarrow> int \<Rightarrow> int \<Rightarrow> 'r call list \<Rightarrow> (error + 'r GridControl) \<times> 'r call list" where
  "build_trapezoid orientation radius width height log =
     (let gdata = build_grid_data orientation radius width height
      in case check_size_trapezoid width height of
           Inl e \<Rightarrow> (Inl e, log)
         | Inr _ \<Rightarrow>
             let grid = \<lparr>grid_grid_data = gdata, storage = Map.empty, hexagons = []\<rparr>;
                 coords = fetch_grid_coords_trapezoid width height orientation;
                 log = log @ [Fetch_grid_coords get_name_trapezoid width height orientation]
             in case populate_storage grid gdata coords log of
                  (grid, log) \<Rightarrow>
                    (Inr \<lparr>hex_grid = grid, calculator = HexagonGridCalculator grid,
                          grid_data = gdata\<rparr>, log))"

section \<open>The coordinate converter\<close>

text \<open>
  Modelled from the spec: the two converter functions of \<open>mixite.coord\<close> that the
  rectangle strategy is called with. The spec asks for the standard axial-offset conversion, under
  which adjacent offset cells map to adjacent cube coordinates, with staggered rows
  for pointy-top and staggered columns for flat-top: for pointy-top the column is
  shifted by half the row index and the row is kept, for flat-top the column is kept
  and the row is shifted by half the column index.
\<close>

definition offset_coords_to_cube_x :: converter where
  "offset_coords_to_cube_x x y orientation =
     (if FLAT_TOP = orientation then x else x - y div 2)"

definition offset_coords_to_cube_z :: converter where
  "offset_coords_to_cube_z x y orientation =
     (if FLAT_TOP = orientation then y - x div 2 else y)"

section \<open>Validation rules\<close>

lemma str_small:
  assumes "\<bar>i\<bar> < 10 ^ 4"
  shows "str i = Inr (if i < 0 then ''-'' @ str_nat (nat (- i)) else str_nat (nat i))"
proof -
  have "(10::int) ^ 4 \<le> 10 ^ int_max_str_digits"
    by (rule power_increasing) (simp_all add: int_max_str_digits_def)
  with assms have "\<bar>i\<bar> < 10 ^ int_max_str_digits" by (rule less_le_trans)
  then have "\<not> 10 ^ int_max_str_digits \<le> \<bar>i\<bar>" by (simp only: not_le)
  then show ?thesis by (simp only: str_def if_False)
qed






lemma check_size_hexagon_ok_iff:
  "check_size_hexagon width height = Inr () \<longleftrightarrow>
     width > 0 \<and> height > 0 \<and> width = height \<and> odd height"
  by (simp add: check_size_hexagon_def odd_iff_mod_2_eq_one)

lemma check_size_triangle_ok_iff:
  "check_size_triangle width height = Inr () \<longleftrightarrow> width > 0 \<and> width = height"
  by (auto simp: check_size_triangle_def)

lemma check_size_rectangle_ok_iff:
  "check_size_rectangle width height = Inr () \<longleftrightarrow> width > 0 \<and> height > 0"
  by (simp add: check_size_rectangle_def)

lemma check_size_trapezoid_ok_iff:
  "check_size_trapezoid width height = Inr () \<longleftrightarrow> width > 0 \<and> height > 0"
  by (simp add: check_size_trapezoid_def)

lemma is_GridLayoutException_iff:
  "is_GridLayoutException r \<longleftrightarrow> (\<exists>m. r = Inl (GridLayoutException m))"
  by (cases r rule: is_GridLayoutException.cases) simp_all






section \<open>Closed forms of the enumeration loops\<close>

lemma foldl_append_map: "foldl (\<lambda>cs x. cs @ [f x]) acc xs = acc @ map f xs"
  by (induction xs arbitrary: acc) simp_all

lemma foldl_rows:
  "foldl (\<lambda>cs y. foldl (\<lambda>cs x. cs @ [f x y]) cs (g y)) acc ys
     = acc @ concat (map (\<lambda>y. map (\<lambda>x. f x y) (g y)) ys)"
  by (induction ys arbitrary: acc) (simp_all add: foldl_append_map)

lemma rectangle_coords:
  "fetch_grid_coords_rectangle cx cz width height orientation =
     concat (map (\<lambda>y. map (\<lambda>x. CubeCoordinate (cx x y orientation) (cz x y orientation))
                          [0..width - 1]) [0..height - 1])"
  unfolding fetch_grid_coords_rectangle_def range_py_def Let_def
  by (simp add: foldl_rows)

lemma triangle_coords:
  "fetch_grid_coords_triangle width height orientation =
     concat (map (\<lambda>z. map (\<lambda>x. CubeCoordinate x z) [0..height - z - 1]) [0..height - 1])"
  unfolding fetch_grid_coords_triangle_def range_py_def Let_def
  by (simp add: foldl_rows)

lemma trapezoid_coords:
  "fetch_grid_coords_trapezoid width height orientation =
     concat (map (\<lambda>z. map (\<lambda>x. CubeCoordinate x z) [0..width - 1]) [0..height - 1])"
  unfolding fetch_grid_coords_trapezoid_def range_py_def Let_def
  by (simp add: foldl_rows)

lemma hexagon_row_eq:
  "hexagon_row g r m t (cs, s) y = (cs @ hexagon_span g r m t s y, s - 1)"
  by (simp add: hexagon_row_def hexagon_span_def hexagon_z_def range_py_def Let_def
      foldl_append_map)

lemma hexagon_loop:
  "foldl (hexagon_row g r m t) (cs, s) [a..b] =
     (cs @ concat (map (\<lambda>y. hexagon_span g r m t (s - (y - a)) y) [a..b]),
      s - int (length [a..b]))"
proof (induction a b arbitrary: cs s rule: upto.induct)
  case (1 i j)
  show ?case
  proof (cases "i \<le> j")
    case False
    then show ?thesis by simp
  next
    case True
    have eq: "map (\<lambda>y. hexagon_span g r m t (s - 1 - (y - (i + 1))) y) [i + 1..j]
            = map (\<lambda>y. hexagon_span g r m t (s - (y - i)) y) [i + 1..j]"
      by (rule map_cong) (simp_all add: algebra_simps)
    from True have split: "[i..j] = i # [i + 1..j]" by (simp add: upto_rec1)
    have "foldl (hexagon_row g r m t) (cs, s) [i..j]
        = foldl (hexagon_row g r m t) (cs @ hexagon_span g r m t s i, s - 1) [i + 1..j]"
      by (simp only: split foldl_Cons hexagon_row_eq)
    also have "\<dots> = ((cs @ hexagon_span g r m t s i)
          @ concat (map (\<lambda>y. hexagon_span g r m t (s - 1 - (y - (i + 1))) y) [i + 1..j]),
        s - 1 - int (length [i + 1..j]))"
      by (rule "1.IH" [OF True])
    also have "\<dots> = (cs @ concat (map (\<lambda>y. hexagon_span g r m t (s - (y - i)) y) [i..j]),
        s - int (length [i..j]))"
      unfolding eq using True by (simp add: split)
    finally show ?thesis .
  qed
qed

lemma hexagon_coords:
  assumes "\<not> float_overflows height"
  shows "fetch_grid_coords_hexagon width height orientation =
     Inr (concat (map (\<lambda>y. hexagon_span height (floor_div_float height 2)
                     (hexagon_start_x height orientation - floor_div_float height 2) orientation
                     (hexagon_start_x height orientation - y) y) [0..height - 1]))"
  using assms
  by (simp add: fetch_grid_coords_hexagon_def hexagon_start_x_def Let_def range_py_def
      hexagon_loop)

lemma hexagon_overflow:
  "float_overflows height \<Longrightarrow>
     fetch_grid_coords_hexagon width height orientation = Inl OverflowError"
  by (simp add: fetch_grid_coords_hexagon_def)

lemma length_rows_const:
  "length (concat (map (\<lambda>y. map (f y) xs) ys)) = length ys * length xs"
  by (induction ys) simp_all

lemma rectangle_length:
  assumes "width > 0" "height > 0"
  shows "int (length (fetch_grid_coords_rectangle cx cz width height orientation)) = width * height"
  using assms by (simp add: rectangle_coords length_rows_const mult.commute)

lemma trapezoid_length:
  assumes "width > 0" "height > 0"
  shows "int (length (fetch_grid_coords_trapezoid width height orientation)) = width * height"
  using assms by (simp add: trapezoid_coords length_rows_const mult.commute)

lemma int_length_concat:
  "int (length (concat (map f ys))) = sum_list (map (\<lambda>y. int (length (f y))) ys)"
  by (induction ys) simp_all

lemma sum_list_up:
  "i \<le> j + 1 \<Longrightarrow> 2 * sum_list (map (\<lambda>y. a + y) [i..j]) = (j + 1 - i) * (2 * a + i + j)"
proof (induction i j rule: upto.induct)
  case (1 i j)
  show ?case
  proof (cases "i \<le> j")
    case False
    with "1.prems" have "i = j + 1" by simp
    then show ?thesis by simp
  next
    case True
    then have "[i..j] = i # [i + 1..j]" by (simp add: upto_rec1)
    then show ?thesis using "1.IH" [OF True] True by (simp add: algebra_simps)
  qed
qed

lemma sum_list_down:
  "i \<le> j + 1 \<Longrightarrow> 2 * sum_list (map (\<lambda>y. a - y) [i..j]) = (j + 1 - i) * (2 * a - i - j)"
proof (induction i j rule: upto.induct)
  case (1 i j)
  show ?case
  proof (cases "i \<le> j")
    case False
    with "1.prems" have "i = j + 1" by simp
    then show ?thesis by simp
  next
    case True
    then have "[i..j] = i # [i + 1..j]" by (simp add: upto_rec1)
    then show ?thesis using "1.IH" [OF True] True by (simp add: algebra_simps)
  qed
qed

lemma triangle_length:
  assumes "height > 0"
  shows "2 * int (length (fetch_grid_coords_triangle width height orientation))
           = height * (height + 1)"
proof -
  have "map (\<lambda>z. int (length (map (\<lambda>x. CubeCoordinate x z) [0..height - z - 1]))) [0..height - 1]
      = map (\<lambda>z. height - z) [0..height - 1]"
    by (rule map_cong) simp_all
  then have "int (length (fetch_grid_coords_triangle width height orientation))
      = sum_list (map (\<lambda>z. height - z) [0..height - 1])"
    by (simp only: triangle_coords int_length_concat)
  then show ?thesis
    using sum_list_down [of 0 "height - 1" height] assms by (simp add: algebra_simps)
qed


lemma length_hexagon_span:
  "int (length (hexagon_span g r m t s y)) = max 0 (2 * r - \<bar>r - y\<bar> + 1)"
  by (simp add: hexagon_span_def)

lemma distinct_rows:
  assumes "distinct ys"
    and "\<And>y. y \<in> set ys \<Longrightarrow> distinct (f y)"
    and "\<And>y c. y \<in> set ys \<Longrightarrow> c \<in> set (f y) \<Longrightarrow> key c = k y"
    and "inj_on k (set ys)"
  shows "distinct (concat (map f ys))"
  using assms
proof (induction ys)
  case Nil
  then show ?case by simp
next
  case (Cons y ys)
  have "set (f y) \<inter> set (f y') = {}" if "y' \<in> set ys" for y'
  proof -
    from that Cons.prems(1) have "y \<noteq> y'" by auto
    with that Cons.prems(4) have "k y \<noteq> k y'" by (auto simp: inj_on_def)
    have "key c = k y" if "c \<in> set (f y)" for c
      using that Cons.prems(3) [of y c] by simp
    moreover have "key c = k y'" if "c \<in> set (f y')" for c
      using that \<open>y' \<in> set ys\<close> Cons.prems(3) [of y' c] by simp
    ultimately show ?thesis using \<open>k y \<noteq> k y'\<close> by fastforce
  qed
  moreover have "distinct (concat (map f ys))"
    using Cons.prems by (intro Cons.IH) (auto simp: inj_on_def)
  ultimately show ?case using Cons.prems(2) by auto
qed

lemma distinct_row: "distinct (map (\<lambda>x. CubeCoordinate x z) [a..b])"
  by (simp add: distinct_map inj_on_def)

lemma triangle_distinct: "distinct (fetch_grid_coords_triangle width height orientation)"
  unfolding triangle_coords
  by (rule distinct_rows [where key = gridZ and k = "\<lambda>z. z"]) (auto simp: distinct_row)

lemma trapezoid_distinct: "distinct (fetch_grid_coords_trapezoid width height orientation)"
  unfolding trapezoid_coords
  by (rule distinct_rows [where key = gridZ and k = "\<lambda>z. z"]) (auto simp: distinct_row)

lemma hexagon_distinct:
  assumes "fetch_grid_coords_hexagon width height orientation = Inr coords"
  shows "distinct coords"
proof -
  from assms have nof: "\<not> float_overflows height"
    by (auto simp: fetch_grid_coords_hexagon_def Let_def split: if_splits)
  have "distinct (concat (map (\<lambda>y. hexagon_span height (floor_div_float height 2)
                     (hexagon_start_x height orientation - floor_div_float height 2) orientation
                     (hexagon_start_x height orientation - y) y) [0..height - 1]))"
    by (rule distinct_rows [where key = gridZ and k = "hexagon_z height orientation"])
       (auto simp: hexagon_span_def hexagon_z_def distinct_map inj_on_def)
  with assms show ?thesis by (simp add: hexagon_coords [OF nof])
qed

lemma rows_product:
  "concat (map (\<lambda>y. map (\<lambda>x. f x y) xs) ys) = map (\<lambda>(y, x). f x y) (List.product ys xs)"
  by (induction ys) simp_all

lemma rectangle_distinct:
  assumes "inj_on (\<lambda>(x, y). (cx x y orientation, cz x y orientation))
             ({0..<width} \<times> {0..<height})"
  shows "distinct (fetch_grid_coords_rectangle cx cz width height orientation)"
proof -
  have "inj_on (\<lambda>(y, x). CubeCoordinate (cx x y orientation) (cz x y orientation))
          (set (List.product [0..height - 1] [0..width - 1]))"
    using assms by (auto simp: inj_on_def)
  then show ?thesis
    unfolding rectangle_coords rows_product
    by (simp add: distinct_map distinct_product)
qed


lemma filter_rows:
  assumes "distinct ys" and "y0 \<in> set ys"
    and "\<And>y c. y \<in> set ys \<Longrightarrow> c \<in> set (f y) \<Longrightarrow> key c = k y"
    and "inj_on k (set ys)"
  shows "filter (\<lambda>c. key c = k y0) (concat (map f ys)) = f y0"
  using assms
proof (induction ys)
  case Nil
  then show ?case by simp
next
  case (Cons y ys)
  have keys: "key c = k y'" if "y' \<in> set (y # ys)" "c \<in> set (f y')" for y' c
    using that Cons.prems(3) by blast
  have none: "filter (\<lambda>c. key c = k a) (concat (map f ys)) = []"
    if "a \<notin> set ys" "a \<in> set (y # ys)" for a
  proof -
    have "key c \<noteq> k a" if "y' \<in> set ys" "c \<in> set (f y')" for y' c
    proof -
      from that \<open>a \<notin> set ys\<close> have "y' \<noteq> a" by auto
      with \<open>a \<in> set (y # ys)\<close> that(1) Cons.prems(4) have "k y' \<noteq> k a"
        by (auto simp: inj_on_def)
      with keys [of y' c] that show ?thesis by simp
    qed
    then show ?thesis by (auto simp: filter_empty_conv)
  qed
  show ?case
  proof (cases "y0 = y")
    case True
    with Cons.prems(1) have "y \<notin> set ys" by simp
    then have "filter (\<lambda>c. key c = k y) (concat (map f ys)) = []"
      by (rule none) simp
    moreover have "filter (\<lambda>c. key c = k y) (f y) = f y"
      using keys [of y] by (simp add: filter_id_conv)
    ultimately show ?thesis using True by simp
  next
    case False
    with Cons.prems(2) have in_ys: "y0 \<in> set ys" by simp
    with Cons.prems(1) Cons.prems(4) False have "k y \<noteq> k y0"
      by (auto simp: inj_on_def)
    then have "filter (\<lambda>c. key c = k y0) (f y) = []"
      using keys [of y] by (auto simp: filter_empty_conv)
    moreover have "filter (\<lambda>c. key c = k y0) (concat (map f ys)) = f y0"
      using Cons.prems in_ys by (intro Cons.IH) (auto simp: inj_on_def)
    ultimately show ?thesis by simp
  qed
qed

lemma triangle_row:
  assumes "0 \<le> z" "z < height"
  shows "filter (\<lambda>c. gridZ c = z) (fetch_grid_coords_triangle width height orientation)
           = map (\<lambda>x. CubeCoordinate x z) [0..height - z - 1]"
  unfolding triangle_coords
  using assms
  by (intro filter_rows [where key = gridZ and k = "\<lambda>z. z"]) auto

lemma upto_shift: "[a + d..b + d] = map (\<lambda>x. x + d) [a..b]"
proof (induction a b rule: upto.induct)
  case (1 i j)
  show ?case
  proof (cases "i \<le> j")
    case True
    then have "[i..j] = i # [i + 1..j]" "[i + d..j + d] = (i + d) # [i + d + 1..j + d]"
      by (simp_all add: upto_rec1)
    with "1.IH" [OF True] show ?thesis by (simp add: add.commute add.left_commute)
  next
    case False
    then show ?thesis by simp
  qed
qed

section \<open>Sizes that a double holds exactly\<close>

lemma bit_length_le: "n < 2 ^ k \<Longrightarrow> bit_length n \<le> k"
proof (induction k arbitrary: n)
  case 0
  then show ?case by simp
next
  case (Suc k)
  from Suc.prems have "n div 2 < 2 ^ k" by simp
  from Suc.IH [OF this] show ?case by (subst bit_length.simps) simp
qed

lemma round_to_double_small:
  assumes "\<bar>n\<bar> < 2 ^ 53"
  shows "round_to_double n = n"
proof -
  from assms have "nat \<bar>n\<bar> < 2 ^ 53"
    by (simp add: nat_less_iff)
  then have "bit_length (nat \<bar>n\<bar>) \<le> 53" by (rule bit_length_le)
  then show ?thesis
    by (simp add: round_to_double_def Let_def mult_sgn_abs del: bit_length.simps)
qed

lemma bit_length_eq: "2 ^ k \<le> n \<Longrightarrow> n < 2 ^ Suc k \<Longrightarrow> bit_length n = Suc k"
proof (induction k arbitrary: n)
  case 0
  then have "n = 1" by simp
  then show ?case by simp
next
  case (Suc k)
  from Suc.prems have "2 ^ k \<le> n div 2" "n div 2 < 2 ^ Suc k" "n \<noteq> 0" by auto
  from Suc.IH [OF this(1,2)] \<open>n \<noteq> 0\<close> show ?case by (subst bit_length.simps) simp
qed

lemma bit_length_54: "2 ^ 53 \<le> n \<Longrightarrow> n < 2 ^ 54 \<Longrightarrow> bit_length (nat n) = 54"
proof -
  assume "2 ^ 53 \<le> n" "n < 2 ^ 54"
  then have "2 ^ 53 \<le> nat n" "nat n < 2 ^ Suc 53"
    by (simp_all add: le_nat_iff nat_less_iff)
  from bit_length_eq [OF this] show ?thesis by simp
qed

lemma round_to_double_2_53:
  "round_to_double (2 ^ 53) = 2 ^ 53" "round_to_double (- (2 ^ 53)) = - (2 ^ 53)"
proof -
  have "bit_length (nat (2 ^ 53)) = 54" by (rule bit_length_54) simp_all
  then show "round_to_double (2 ^ 53) = 2 ^ 53" "round_to_double (- (2 ^ 53)) = - (2 ^ 53)"
    by (simp_all add: round_to_double_def Let_def del: bit_length.simps)
qed

lemma round_to_double_exact:
  assumes "\<bar>n\<bar> \<le> 2 ^ 53"
  shows "round_to_double n = n"
proof (cases "\<bar>n\<bar> < 2 ^ 53")
  case True
  then show ?thesis by (rule round_to_double_small)
next
  case False
  with assms have "n = 2 ^ 53 \<or> n = - (2 ^ 53)" by linarith
  then show ?thesis using round_to_double_2_53 by auto
qed

lemma float_fits_exact: "\<bar>n\<bar> \<le> 2 ^ 53 \<Longrightarrow> \<not> float_overflows n"
proof -
  have "(2::int) ^ 53 < 2 ^ 1024 - 2 ^ 970" by simp
  then show "\<bar>n\<bar> \<le> 2 ^ 53 \<Longrightarrow> \<not> float_overflows n"
    by (simp add: float_overflows_def)
qed

lemma floor_div_float_exact: "\<bar>n\<bar> \<le> 2 ^ 53 \<Longrightarrow> floor_div_float n d = n div d"
  by (simp add: floor_div_float_def round_to_double_exact)

lemma hexagon_start_x_exact:
  "\<bar>n\<bar> \<le> 2 ^ 53 \<Longrightarrow>
     hexagon_start_x n orientation = (if FLAT_TOP = orientation then n div 2 else round_quarter n)"
  by (simp add: hexagon_start_x_def floor_div_float_exact round_to_double_exact)

lemma hexagon_z_exact:
  "\<bar>n\<bar> \<le> 2 ^ 53 \<Longrightarrow>
     hexagon_z n orientation y = (if FLAT_TOP = orientation then y - n div 4 else y)"
  by (simp add: hexagon_z_def floor_div_float_exact)

text \<open>The first odd size above \<open>2^53\<close> whose nearest double is larger than itself.\<close>

lemma round_to_double_inexact: "round_to_double (2 ^ 53 + 3) = 2 ^ 53 + 4"
proof -
  have "bit_length (nat (2 ^ 53 + 3)) = 54" by (rule bit_length_54) simp_all
  then show ?thesis
    by (simp add: round_to_double_def Let_def del: bit_length.simps)
qed

section \<open>Counting the hexagon\<close>

lemma hexagon_sum:
  assumes "0 \<le> r" "r \<le> m" "m \<le> 3 * r + 1"
  shows "2 * sum_list (map (\<lambda>y. max 0 (2 * r - \<bar>r - y\<bar> + 1)) [0..m])
           = r * (3 * r + 1) + (m - r + 1) * (5 * r + 2 - m)"
proof -
  have split: "[0..m] = [0..r - 1] @ [r..m]"
    using assms upto_split1 [of 0 r m] by simp
  have lo: "map (\<lambda>y. max 0 (2 * r - \<bar>r - y\<bar> + 1)) [0..r - 1] = map (\<lambda>y. (r + 1) + y) [0..r - 1]"
    by (rule map_cong) auto
  have hi: "map (\<lambda>y. max 0 (2 * r - \<bar>r - y\<bar> + 1)) [r..m] = map (\<lambda>y. (3 * r + 1) - y) [r..m]"
    using assms by (intro map_cong) auto
  have a: "2 * sum_list (map (\<lambda>y. (r + 1) + y) [0..r - 1]) = r * (2 * (r + 1) + (r - 1))"
    using sum_list_up [of 0 "r - 1" "r + 1"] assms by simp
  have b: "2 * sum_list (map (\<lambda>y. (3 * r + 1) - y) [r..m])
      = (m + 1 - r) * (2 * (3 * r + 1) - r - m)"
    using sum_list_down [of r m "3 * r + 1"] assms by simp
  have "2 * sum_list (map (\<lambda>y. max 0 (2 * r - \<bar>r - y\<bar> + 1)) [0..m])
      = r * (2 * (r + 1) + (r - 1)) + (m + 1 - r) * (2 * (3 * r + 1) - r - m)"
    unfolding split map_append sum_list_append lo hi using a b by simp
  also have "\<dots> = r * (3 * r + 1) + (m - r + 1) * (5 * r + 2 - m)"
    by (simp add: algebra_simps)
  finally show ?thesis .
qed

lemma hexagon_length_general:
  assumes "\<not> float_overflows height"
    and "0 \<le> floor_div_float height 2" "floor_div_float height 2 \<le> height - 1"
    and "height - 1 \<le> 3 * floor_div_float height 2 + 1"
  shows "\<exists>coords. fetch_grid_coords_hexagon width height orientation = Inr coords
           \<and> 2 * int (length coords)
               = floor_div_float height 2 * (3 * floor_div_float height 2 + 1)
                 + (height - floor_div_float height 2)
                   * (5 * floor_div_float height 2 + 3 - height)"
  using hexagon_sum [OF assms(2,3,4)]
  by (simp add: hexagon_coords [OF assms(1)] int_length_concat length_hexagon_span algebra_simps)

lemma hexagon_length:
  assumes "height \<le> 2 ^ 53" "height > 0" "odd height"
  shows "\<exists>coords. fetch_grid_coords_hexagon width height orientation = Inr coords
           \<and> int (length coords) = 3 * (height div 2)\<^sup>2 + 3 * (height div 2) + 1"
proof -
  define r where "r = height div 2"
  from assms have small: "\<bar>height\<bar> \<le> 2 ^ 53" by simp
  from assms have h: "height = 2 * r + 1" and r: "0 \<le> r"
    unfolding r_def by presburger+
  have fd: "floor_div_float height 2 = r"
    unfolding r_def using small by (rule floor_div_float_exact)
  have bounds: "0 \<le> floor_div_float height 2" "floor_div_float height 2 \<le> height - 1"
    "height - 1 \<le> 3 * floor_div_float height 2 + 1"
    unfolding fd using r by (simp_all add: h)
  from hexagon_length_general [OF float_fits_exact [OF small] bounds, of width orientation]
  obtain coords where eq: "fetch_grid_coords_hexagon width height orientation = Inr coords"
    and len: "2 * int (length coords)
               = r * (3 * r + 1) + (height - r) * (5 * r + 3 - height)"
    unfolding fd by blast
  have "r * (3 * r + 1) + (height - r) * (5 * r + 3 - height) = 2 * (3 * r\<^sup>2 + 3 * r + 1)"
    unfolding h by (simp add: algebra_simps power2_eq_square)
  with len have "int (length coords) = 3 * r\<^sup>2 + 3 * r + 1" by simp
  with eq show ?thesis unfolding r_def by blast
qed

section \<open>Counts\<close>

lemma inexact_size:
  "\<not> float_overflows (2 ^ 53 + 3)"
  "floor_div_float (2 ^ 53 + 3) 2 = 2 ^ 52 + 2"
  "floor_div_float (2 ^ 53 + 3) 4 = 2 ^ 51 + 1"
  "round_quarter (round_to_double (2 ^ 53 + 3)) = 2 ^ 51 + 1"
  "check_size_hexagon (2 ^ 53 + 3) (2 ^ 53 + 3) = Inr ()"
  by (simp_all only: floor_div_float_def round_to_double_inexact)
     (simp_all add: float_overflows_def round_quarter_def check_size_hexagon_ok_iff)

text \<open>
  Claim C1, as stated: the hexagon count holds for every accepted size. The code takes
  \<open>hex_radius\<close> from a double: for the accepted size \<open>2^53 + 3\<close> the nearest double is
  \<open>2^53 + 4\<close>, so \<open>hex_radius\<close> is \<open>2^52 + 2\<close> where \<open>floor(height / 2)\<close> is \<open>2^52 + 1\<close>,
  and the rows that the loops enumerate add up to \<open>3 * (2^52 + 2)\<^sup>2 + 2^52\<close>
  coordinates, not to the stated count.
\<close>

theorem fetch_grid_coords_count_as_stated_counterexample:
  "check_size_hexagon (2 ^ 53 + 3) (2 ^ 53 + 3) = Inr ()
   \<and> map_sum id length (fetch_grid_coords_hexagon (2 ^ 53 + 3) (2 ^ 53 + 3) ''POINTY_TOP'')
       = Inr (3 * (2 ^ 52 + 2)\<^sup>2 + 2 ^ 52)
   \<and> int (3 * (2 ^ 52 + 2)\<^sup>2 + 2 ^ 52)
       \<noteq> 3 * ((2 ^ 53 + 3) div 2)\<^sup>2 + 3 * ((2 ^ 53 + 3) div 2) + 1"
proof -
  from hexagon_length_general [of "2 ^ 53 + 3" "2 ^ 53 + 3" "''POINTY_TOP''"] inexact_size(1)
  obtain coords
    where eq: "fetch_grid_coords_hexagon (2 ^ 53 + 3) (2 ^ 53 + 3) ''POINTY_TOP'' = Inr coords"
      and len: "2 * int (length coords)
               = (2 ^ 52 + 2) * (3 * (2 ^ 52 + 2) + 1)
                 + (2 ^ 53 + 3 - (2 ^ 52 + 2)) * (5 * (2 ^ 52 + 2) + 3 - (2 ^ 53 + 3))"
    unfolding inexact_size(2) by auto
  from len have "int (length coords) = int (3 * (2 ^ 52 + 2)\<^sup>2 + 2 ^ 52)" by simp
  then have "length coords = 3 * (2 ^ 52 + 2)\<^sup>2 + 2 ^ 52" by (simp only: int_int_eq)
  with eq inexact_size(5) show ?thesis by simp
qed

text \<open>
  Claim C1, amended. For every width and height that the shape's \<open>check_size\<close>
  accepts, the list returned by \<open>fetch_grid_coords\<close> has \<open>width * height\<close> elements for
  Rectangle and Trapezoid and \<open>height * (height + 1) / 2\<close> for Triangle; for Hexagon,
  for every accepted size with \<open>height \<le> 2^53\<close> (the sizes for which the code's
  double-precision divisions are exact), a list is returned and it has
  \<open>3 * hexRadius\<^sup>2 + 3 * hexRadius + 1\<close> elements with \<open>hexRadius = height div 2\<close>;
  all of this for every orientation.
\<close>

theorem fetch_grid_coords_count:
  "(check_size_rectangle width height = Inr () \<longrightarrow>
      int (length (fetch_grid_coords_rectangle cx cz width height orientation)) = width * height)
   \<and> (check_size_trapezoid width height = Inr () \<longrightarrow>
      int (length (fetch_grid_coords_trapezoid width height orientation)) = width * height)
   \<and> (check_size_triangle width height = Inr () \<longrightarrow>
      int (length (fetch_grid_coords_triangle width height orientation))
        = height * (height + 1) div 2)
   \<and> (check_size_hexagon width height = Inr () \<and> height \<le> 2 ^ 53 \<longrightarrow>
      (\<exists>coords. fetch_grid_coords_hexagon width height orientation = Inr coords
              \<and> int (length coords) = 3 * (height div 2)\<^sup>2 + 3 * (height div 2) + 1))"
proof (intro conjI impI)
  assume "check_size_rectangle width height = Inr ()"
  then show "int (length (fetch_grid_coords_rectangle cx cz width height orientation))
      = width * height"
    by (simp add: check_size_rectangle_ok_iff rectangle_length)
next
  assume "check_size_trapezoid width height = Inr ()"
  then show "int (length (fetch_grid_coords_trapezoid width height orientation)) = width * height"
    by (simp add: check_size_trapezoid_ok_iff trapezoid_length)
next
  assume "check_size_triangle width height = Inr ()"
  then have "height > 0" by (simp add: check_size_triangle_ok_iff)
  from triangle_length [OF this, of width orientation]
  show "int (length (fetch_grid_coords_triangle width height orientation))
      = height * (height + 1) div 2"
    by simp
next
  assume "check_size_hexagon width height = Inr () \<and> height \<le> 2 ^ 53"
  then have "height \<le> 2 ^ 53" "height > 0" "odd height"
    by (simp_all add: check_size_hexagon_ok_iff)
  then show "\<exists>coords. fetch_grid_coords_hexagon width height orientation = Inr coords
              \<and> int (length coords) = 3 * (height div 2)\<^sup>2 + 3 * (height div 2) + 1"
    by (rule hexagon_length)
qed

theorem fetch_grid_coords_count_witness:
  "check_size_rectangle 5 5 = Inr ()
   \<and> int (length (fetch_grid_coords_rectangle (\<lambda>x y t. x - y div 2) (\<lambda>x y t. y) 5 5
         ''POINTY_TOP'')) = 25
   \<and> check_size_trapezoid 5 5 = Inr ()
   \<and> int (length (fetch_grid_coords_trapezoid 5 5 ''POINTY_TOP'')) = 25
   \<and> check_size_triangle 5 5 = Inr ()
   \<and> int (length (fetch_grid_coords_triangle 5 5 ''POINTY_TOP'')) = 15
   \<and> check_size_hexagon 5 5 = Inr ()
   \<and> (5::int) \<le> 2 ^ 53
   \<and> (\<exists>coords. fetch_grid_coords_hexagon 5 5 ''POINTY_TOP'' = Inr coords
         \<and> int (length coords) = 19)"
  using fetch_grid_coords_count [of 5 5 "\<lambda>x y t. x - y div 2" "\<lambda>x y t. y" "''POINTY_TOP''"]
  by (simp add: check_size_rectangle_ok_iff check_size_trapezoid_ok_iff
      check_size_triangle_ok_iff check_size_hexagon_ok_iff)

section \<open>Uniqueness\<close>

lemma converter_injective:
  "inj_on (\<lambda>(x, y). (offset_coords_to_cube_x x y orientation,
                       offset_coords_to_cube_z x y orientation)) A"
  by (auto simp: inj_on_def offset_coords_to_cube_x_def offset_coords_to_cube_z_def
      split: if_splits)

text \<open>
  Claim C4. For every width and height that the shape's \<open>check_size\<close> accepts and every
  orientation, the coordinates returned by \<open>fetch_grid_coords\<close> are pairwise distinct,
  for each of the four strategies; the rectangle strategy is taken with the coordinate
  converter modelled from the specification. The hexagon strategy returns a list
  unless the size does not convert to a float.
\<close>

theorem fetch_grid_coords_distinct:
  "(check_size_rectangle width height = Inr () \<longrightarrow>
      distinct (fetch_grid_coords_rectangle offset_coords_to_cube_x offset_coords_to_cube_z
                  width height orientation))
   \<and> (check_size_triangle width height = Inr () \<longrightarrow>
      distinct (fetch_grid_coords_triangle width height orientation))
   \<and> (check_size_trapezoid width height = Inr () \<longrightarrow>
      distinct (fetch_grid_coords_trapezoid width height orientation))
   \<and> (check_size_hexagon width height = Inr () \<longrightarrow>
      (if float_overflows height
       then fetch_grid_coords_hexagon width height orientation = Inl OverflowError
       else \<exists>coords. fetch_grid_coords_hexagon width height orientation = Inr coords
              \<and> distinct coords))"
proof (intro conjI impI)
  show "distinct (fetch_grid_coords_rectangle offset_coords_to_cube_x offset_coords_to_cube_z
                  width height orientation)"
    by (rule rectangle_distinct) (rule converter_injective)
next
  show "distinct (fetch_grid_coords_triangle width height orientation)"
    by (rule triangle_distinct)
next
  show "distinct (fetch_grid_coords_trapezoid width height orientation)"
    by (rule trapezoid_distinct)
next
  show "if float_overflows height
       then fetch_grid_coords_hexagon width height orientation = Inl OverflowError
       else \<exists>coords. fetch_grid_coords_hexagon width height orientation = Inr coords
              \<and> distinct coords"
  proof (cases "float_overflows height")
    case True
    then show ?thesis by (simp add: hexagon_overflow)
  next
    case False
    from hexagon_coords [OF False, of width orientation]
    obtain coords where eq: "fetch_grid_coords_hexagon width height orientation = Inr coords"
      by blast
    from hexagon_distinct [OF eq] eq False show ?thesis by simp
  qed
qed

theorem fetch_grid_coords_distinct_witness:
  "check_size_rectangle 5 5 = Inr ()
   \<and> distinct (fetch_grid_coords_rectangle offset_coords_to_cube_x offset_coords_to_cube_z 5 5
         ''POINTY_TOP'')
   \<and> check_size_triangle 5 5 = Inr ()
   \<and> distinct (fetch_grid_coords_triangle 5 5 ''POINTY_TOP'')
   \<and> check_size_trapezoid 5 5 = Inr ()
   \<and> distinct (fetch_grid_coords_trapezoid 5 5 ''POINTY_TOP'')
   \<and> check_size_hexagon 5 5 = Inr ()
   \<and> \<not> float_overflows 5
   \<and> (\<exists>coords. fetch_grid_coords_hexagon 5 5 ''POINTY_TOP'' = Inr coords \<and> distinct coords)"
  using fetch_grid_coords_distinct [of 5 5 "''POINTY_TOP''"]
  by (simp add: check_size_rectangle_ok_iff check_size_trapezoid_ok_iff
      check_size_triangle_ok_iff check_size_hexagon_ok_iff float_overflows_def)

section \<open>The triangle\<close>

text \<open>
  Claim C6. For every valid triangle size and every orientation, the Triangle strategy
  returns exactly the coordinates \<open>CubeCoordinate x z\<close> for \<open>z\<close> in \<open>[0, height)\<close> and
  \<open>x\<close> in \<open>[0, height - z)\<close>, row by row; row \<open>z\<close> holds \<open>height - z\<close> coordinates,
  so each row is strictly shorter than the one before; for height 3 the result is
  (0,0), (1,0), (2,0), (0,1), (1,1), (0,2).
\<close>

theorem triangle_rows:
  "(check_size_triangle width height = Inr () \<longrightarrow>
      fetch_grid_coords_triangle width height orientation
        = concat (map (\<lambda>z. map (\<lambda>x. CubeCoordinate x z) [0..height - z - 1]) [0..height - 1])
      \<and> (\<forall>z. 0 \<le> z \<and> z < height \<longrightarrow>
            int (length (filter (\<lambda>c. gridZ c = z)
                  (fetch_grid_coords_triangle width height orientation))) = height - z)
      \<and> (\<forall>z z'. 0 \<le> z \<and> z < z' \<and> z' < height \<longrightarrow>
            length (filter (\<lambda>c. gridZ c = z')
                  (fetch_grid_coords_triangle width height orientation))
            < length (filter (\<lambda>c. gridZ c = z)
                  (fetch_grid_coords_triangle width height orientation))))
   \<and> fetch_grid_coords_triangle 3 3 orientation
        = [CubeCoordinate 0 0, CubeCoordinate 1 0, CubeCoordinate 2 0,
           CubeCoordinate 0 1, CubeCoordinate 1 1, CubeCoordinate 0 2]"
proof -
  have len: "int (length (filter (\<lambda>c. gridZ c = z)
                  (fetch_grid_coords_triangle width height orientation))) = height - z"
    if "0 \<le> z" "z < height" for z
    using that by (simp add: triangle_row)
  have dec: "length (filter (\<lambda>c. gridZ c = z')
                  (fetch_grid_coords_triangle width height orientation))
            < length (filter (\<lambda>c. gridZ c = z)
                  (fetch_grid_coords_triangle width height orientation))"
    if "0 \<le> z" "z < z'" "z' < height" for z z'
    using len [of z] len [of z'] that by linarith
  have ex: "fetch_grid_coords_triangle 3 3 orientation
        = [CubeCoordinate 0 0, CubeCoordinate 1 0, CubeCoordinate 2 0,
           CubeCoordinate 0 1, CubeCoordinate 1 1, CubeCoordinate 0 2]"
    by (simp add: triangle_coords upto_rec1)
  from len dec ex triangle_coords [of width height orientation] show ?thesis by blast
qed

theorem triangle_rows_witness:
  "check_size_triangle 4 4 = Inr ()
   \<and> fetch_grid_coords_triangle 4 4 ''FLAT_TOP''
        = [CubeCoordinate 0 0, CubeCoordinate 1 0, CubeCoordinate 2 0, CubeCoordinate 3 0,
           CubeCoordinate 0 1, CubeCoordinate 1 1, CubeCoordinate 2 1,
           CubeCoordinate 0 2, CubeCoordinate 1 2, CubeCoordinate 0 3]
   \<and> int (length (filter (\<lambda>c. gridZ c = 1) (fetch_grid_coords_triangle 4 4 ''FLAT_TOP''))) = 3
   \<and> length (filter (\<lambda>c. gridZ c = 2) (fetch_grid_coords_triangle 4 4 ''FLAT_TOP''))
       < length (filter (\<lambda>c. gridZ c = 1) (fetch_grid_coords_triangle 4 4 ''FLAT_TOP''))"
proof -
  have ok: "check_size_triangle 4 4 = Inr ()" by (simp add: check_size_triangle_ok_iff)
  note t = triangle_rows [of 4 4 "''FLAT_TOP''"]
  from t ok have eq: "fetch_grid_coords_triangle 4 4 ''FLAT_TOP''
        = concat (map (\<lambda>z. map (\<lambda>x. CubeCoordinate x z) [0..4 - z - 1]) [0..4 - 1])"
    by blast
  from t ok have len: "\<forall>z. 0 \<le> z \<and> z < 4 \<longrightarrow>
      int (length (filter (\<lambda>c. gridZ c = z)
        (fetch_grid_coords_triangle 4 4 ''FLAT_TOP''))) = 4 - z"
    by blast
  from t ok have dec: "\<forall>z z'. 0 \<le> z \<and> z < z' \<and> z' < 4 \<longrightarrow>
      length (filter (\<lambda>c. gridZ c = z') (fetch_grid_coords_triangle 4 4 ''FLAT_TOP''))
       < length (filter (\<lambda>c. gridZ c = z) (fetch_grid_coords_triangle 4 4 ''FLAT_TOP''))"
    by blast
  from len [rule_format, of 1] have "int (length (filter (\<lambda>c. gridZ c = 1)
      (fetch_grid_coords_triangle 4 4 ''FLAT_TOP''))) = 3"
    by simp
  moreover from dec [rule_format, of 1 2] have "length (filter (\<lambda>c. gridZ c = 2)
        (fetch_grid_coords_triangle 4 4 ''FLAT_TOP''))
       < length (filter (\<lambda>c. gridZ c = 1) (fetch_grid_coords_triangle 4 4 ''FLAT_TOP''))"
    by simp
  moreover have "fetch_grid_coords_triangle 4 4 ''FLAT_TOP''
        = [CubeCoordinate 0 0, CubeCoordinate 1 0, CubeCoordinate 2 0, CubeCoordinate 3 0,
           CubeCoordinate 0 1, CubeCoordinate 1 1, CubeCoordinate 2 1,
           CubeCoordinate 0 2, CubeCoordinate 1 2, CubeCoordinate 0 3]"
    unfolding eq by (simp add: upto_rec1)
  ultimately show ?thesis using ok by simp
qed

section \<open>The hexagon\<close>

lemma hexagon_output_row:
  assumes "\<not> float_overflows height" "0 \<le> y" "y < height"
  shows "\<exists>coords. fetch_grid_coords_hexagon width height orientation = Inr coords
      \<and> filter (\<lambda>c. gridZ c = hexagon_z height orientation y) coords
        = hexagon_span height (floor_div_float height 2)
            (hexagon_start_x height orientation - floor_div_float height 2) orientation
            (hexagon_start_x height orientation - y) y"
proof -
  have "filter (\<lambda>c. gridZ c = hexagon_z height orientation y)
          (concat (map (\<lambda>y. hexagon_span height (floor_div_float height 2)
                     (hexagon_start_x height orientation - floor_div_float height 2) orientation
                     (hexagon_start_x height orientation - y) y) [0..height - 1]))
        = hexagon_span height (floor_div_float height 2)
            (hexagon_start_x height orientation - floor_div_float height 2) orientation
            (hexagon_start_x height orientation - y) y"
    using assms(2,3)
    by (intro filter_rows [where key = gridZ and k = "hexagon_z height orientation"])
       (auto simp: hexagon_span_def hexagon_z_def inj_on_def)
  then show ?thesis by (simp add: hexagon_coords [OF assms(1)])
qed

lemma hexagon_row_length_general:
  assumes "\<not> float_overflows height" "0 \<le> y" "y < height"
  shows "\<exists>coords. fetch_grid_coords_hexagon width height orientation = Inr coords
      \<and> int (length (filter (\<lambda>c. gridZ c = hexagon_z height orientation y) coords))
        = max 0 (2 * floor_div_float height 2 - \<bar>floor_div_float height 2 - y\<bar> + 1)"
  using hexagon_output_row [OF assms, of width orientation]
  by (auto simp: length_hexagon_span)

lemma hexagon_row_length:
  assumes "height \<le> 2 ^ 53" "0 < height" "odd height" "0 \<le> y" "y < height"
  shows "\<exists>coords. fetch_grid_coords_hexagon width height orientation = Inr coords
      \<and> int (length (filter
            (\<lambda>c. gridZ c = (if FLAT_TOP = orientation then y - height div 4 else y)) coords))
        = 2 * (height div 2) - \<bar>height div 2 - y\<bar> + 1"
proof -
  from assms have small: "\<bar>height\<bar> \<le> 2 ^ 53" by simp
  from assms have "0 \<le> 2 * (height div 2) - \<bar>height div 2 - y\<bar> + 1" by presburger
  with hexagon_row_length_general [OF float_fits_exact [OF small] assms(4,5), of width orientation]
  show ?thesis
    by (simp add: floor_div_float_exact [OF small] hexagon_z_exact [OF small])
qed

lemma hexagon_head:
  assumes "\<not> float_overflows height" "0 < height" "0 \<le> floor_div_float height 2"
  shows "\<exists>rest. fetch_grid_coords_hexagon width height orientation
           = Inr (CubeCoordinate (hexagon_start_x height orientation)
                    (hexagon_z height orientation 0) # rest)"
proof -
  from assms(2) have rows: "[0..height - 1] = 0 # [1..height - 1]"
    by (simp add: upto_rec1)
  from assms(3) have cols:
    "[hexagon_start_x height orientation
      ..hexagon_start_x height orientation + 2 * floor_div_float height 2
          - \<bar>floor_div_float height 2\<bar>]
     = hexagon_start_x height orientation
       # [hexagon_start_x height orientation + 1
          ..hexagon_start_x height orientation + 2 * floor_div_float height 2
              - \<bar>floor_div_float height 2\<bar>]"
    by (intro upto_rec1) simp
  from assms(3) have m: "max (hexagon_start_x height orientation)
      (hexagon_start_x height orientation - floor_div_float height 2)
      = hexagon_start_x height orientation"
    by simp
  show ?thesis
    unfolding hexagon_coords [OF assms(1)] rows
    by (simp add: hexagon_span_def m cols del: upto.simps)
qed

lemma hexagon_5_pointy:
  "fetch_grid_coords_hexagon 5 5 ''POINTY_TOP''
     = Inr [CubeCoordinate 1 0, CubeCoordinate 2 0, CubeCoordinate 3 0,
            CubeCoordinate 0 1, CubeCoordinate 1 1, CubeCoordinate 2 1, CubeCoordinate 3 1,
            CubeCoordinate (- 1) 2, CubeCoordinate 0 2, CubeCoordinate 1 2, CubeCoordinate 2 2,
            CubeCoordinate 3 2,
            CubeCoordinate (- 1) 3, CubeCoordinate 0 3, CubeCoordinate 1 3, CubeCoordinate 2 3,
            CubeCoordinate (- 1) 4, CubeCoordinate 0 4, CubeCoordinate 1 4]"
proof -
  have small: "\<bar>5::int\<bar> \<le> 2 ^ 53" by simp
  show ?thesis
    by (simp add: hexagon_coords [OF float_fits_exact [OF small]] hexagon_span_def
        hexagon_z_exact [OF small] hexagon_start_x_exact [OF small]
        floor_div_float_exact [OF small] FLAT_TOP_def round_quarter_def upto_rec1)
qed


text \<open>
  Claim C7, as stated: the row lengths hold for every valid hexagon size. For the
  valid size \<open>2^53 + 3\<close> the code's \<open>hex_radius\<close> is \<open>2^52 + 2\<close>, from the double
  nearest to the size, where \<open>floor(height / 2)\<close> is \<open>2^52 + 1\<close>: the pointy-top row
  \<open>y = 0\<close> has \<open>2^52 + 3\<close> coordinates, one more than stated.
\<close>

theorem hexagon_row_lengths_as_stated_counterexample:
  "check_size_hexagon (2 ^ 53 + 3) (2 ^ 53 + 3) = Inr ()
   \<and> map_sum id (\<lambda>coords. int (length (filter (\<lambda>c. gridZ c = 0) coords)))
         (fetch_grid_coords_hexagon (2 ^ 53 + 3) (2 ^ 53 + 3) ''POINTY_TOP'')
       = Inr (2 ^ 52 + 3)
   \<and> (2 ^ 52 + 3 :: int) \<noteq> 2 * ((2 ^ 53 + 3) div 2) - \<bar>(2 ^ 53 + 3) div 2 - 0\<bar> + 1"
proof -
  have z: "hexagon_z (2 ^ 53 + 3) ''POINTY_TOP'' 0 = 0"
    by (simp add: hexagon_z_def FLAT_TOP_def)
  from hexagon_row_length_general [OF inexact_size(1), of 0 "2 ^ 53 + 3" "''POINTY_TOP''"]
  obtain coords
    where eq: "fetch_grid_coords_hexagon (2 ^ 53 + 3) (2 ^ 53 + 3) ''POINTY_TOP'' = Inr coords"
      and len: "int (length (filter (\<lambda>c. gridZ c = 0) coords))
          = max 0 (2 * (2 ^ 52 + 2) - \<bar>2 ^ 52 + 2 - 0\<bar> + 1)"
    unfolding inexact_size(2) z by auto
  from len have "int (length (filter (\<lambda>c. gridZ c = 0) coords)) = 2 ^ 52 + 3" by simp
  with eq inexact_size(5) show ?thesis by simp
qed

text \<open>
  Claim C7, amended. For every valid hexagon size with \<open>height \<le> 2^53\<close> (the sizes for
  which the code's double-precision divisions are exact) and both orientations, row
  \<open>y\<close> of the Hexagon strategy's output (the coordinates whose \<open>gridZ\<close> is the row's
  \<open>z\<close>) has \<open>2 * hexRadius - \<bar>hexRadius - y\<bar> + 1\<close> coordinates: the middle row
  \<open>y = hexRadius\<close> has \<open>gridSize\<close> of them, which is the maximum, and rows \<open>y\<close> and
  \<open>gridSize - 1 - y\<close> are equally long. For size 5 the middle row \<open>y = 2\<close> spans 5
  columns.
\<close>

theorem hexagon_row_lengths:
  "(check_size_hexagon width height = Inr () \<and> height \<le> 2 ^ 53 \<longrightarrow>
      (\<exists>coords. fetch_grid_coords_hexagon width height orientation = Inr coords
          \<and> (\<forall>y. 0 \<le> y \<and> y < height \<longrightarrow>
                int (length (filter
                    (\<lambda>c. gridZ c = (if FLAT_TOP = orientation then y - height div 4 else y))
                    coords))
                = 2 * (height div 2) - \<bar>height div 2 - y\<bar> + 1)
          \<and> int (length (filter
              (\<lambda>c. gridZ c = (if FLAT_TOP = orientation then (height div 2) - height div 4 else (height div 2)))
              coords)) = height
          \<and> (\<forall>y. 0 \<le> y \<and> y < height \<longrightarrow>
                length (filter
                    (\<lambda>c. gridZ c = (if FLAT_TOP = orientation then y - height div 4 else y))
                    coords)
                \<le> length (filter
                    (\<lambda>c. gridZ c = (if FLAT_TOP = orientation then (height div 2) - height div 4 else (height div 2)))
                    coords))
          \<and> (\<forall>y. 0 \<le> y \<and> y < height \<longrightarrow>
                length (filter
                    (\<lambda>c. gridZ c = (if FLAT_TOP = orientation then y - height div 4 else y))
                    coords)
                = length (filter
                    (\<lambda>c. gridZ c = (if FLAT_TOP = orientation then (height - 1 - y) - height div 4 else (height - 1 - y)))
                    coords))))
   \<and> (\<exists>coords. fetch_grid_coords_hexagon 5 5 ''POINTY_TOP'' = Inr coords
         \<and> filter (\<lambda>c. gridZ c = 2) coords
             = [CubeCoordinate (- 1) 2, CubeCoordinate 0 2, CubeCoordinate 1 2,
                CubeCoordinate 2 2, CubeCoordinate 3 2])"
proof (intro conjI impI)
  show "(\<exists>coords. fetch_grid_coords_hexagon 5 5 ''POINTY_TOP'' = Inr coords
         \<and> filter (\<lambda>c. gridZ c = 2) coords
             = [CubeCoordinate (- 1) 2, CubeCoordinate 0 2, CubeCoordinate 1 2,
                CubeCoordinate 2 2, CubeCoordinate 3 2])"
    by (simp add: hexagon_5_pointy)
next
  assume "check_size_hexagon width height = Inr () \<and> height \<le> 2 ^ 53"
  then have small: "height \<le> 2 ^ 53" and pos: "0 < height" and odd: "odd height"
    by (simp_all add: check_size_hexagon_ok_iff)
  from hexagon_length [OF small pos odd, of width orientation]
  obtain coords where eq: "fetch_grid_coords_hexagon width height orientation = Inr coords"
    by blast
  have len: "int (length (filter
      (\<lambda>c. gridZ c = (if FLAT_TOP = orientation then y - height div 4 else y))
      coords)) = 2 * (height div 2) - \<bar>height div 2 - y\<bar> + 1"
    if "0 \<le> y" "y < height" for y
    using hexagon_row_length [OF small pos odd that, of width orientation] eq by simp
  from pos odd have mid: "0 \<le> height div 2" "height div 2 < height"
    and h: "2 * (height div 2) + 1 = height"
    by presburger+
  have a: "int (length (filter
      (\<lambda>c. gridZ c = (if FLAT_TOP = orientation then (height div 2) - height div 4 else (height div 2)))
      coords)) = height"
    using len [OF mid] h by simp
  have b: "length (filter
      (\<lambda>c. gridZ c = (if FLAT_TOP = orientation then y - height div 4 else y))
      coords) \<le> length (filter
          (\<lambda>c. gridZ c = (if FLAT_TOP = orientation then (height div 2) - height div 4 else (height div 2)))
          coords)"
    if "0 \<le> y" "y < height" for y
    using len [OF that] a h by linarith
  have c: "length (filter
      (\<lambda>c. gridZ c = (if FLAT_TOP = orientation then y - height div 4 else y))
      coords) = length (filter
          (\<lambda>c. gridZ c = (if FLAT_TOP = orientation then (height - 1 - y) - height div 4 else (height - 1 - y)))
          coords)"
    if "0 \<le> y" "y < height" for y
  proof -
    from that have "0 \<le> height - 1 - y" "height - 1 - y < height" by simp_all
    from len [OF this] len [OF that] h show ?thesis by linarith
  qed
  from len a b c have "(\<forall>y. 0 \<le> y \<and> y < height \<longrightarrow>
                int (length (filter
                    (\<lambda>c. gridZ c = (if FLAT_TOP = orientation then y - height div 4 else y))
                    coords))
                = 2 * (height div 2) - \<bar>height div 2 - y\<bar> + 1)
          \<and> int (length (filter
              (\<lambda>c. gridZ c = (if FLAT_TOP = orientation then (height div 2) - height div 4 else (height div 2)))
              coords)) = height
          \<and> (\<forall>y. 0 \<le> y \<and> y < height \<longrightarrow>
                length (filter
                    (\<lambda>c. gridZ c = (if FLAT_TOP = orientation then y - height div 4 else y))
                    coords)
                \<le> length (filter
                    (\<lambda>c. gridZ c = (if FLAT_TOP = orientation then (height div 2) - height div 4 else (height div 2)))
                    coords))
          \<and> (\<forall>y. 0 \<le> y \<and> y < height \<longrightarrow>
                length (filter
                    (\<lambda>c. gridZ c = (if FLAT_TOP = orientation then y - height div 4 else y))
                    coords)
                = length (filter
                    (\<lambda>c. gridZ c = (if FLAT_TOP = orientation then (height - 1 - y) - height div 4 else (height - 1 - y)))
                    coords))"
    by blast
  with eq show "\<exists>coords. fetch_grid_coords_hexagon width height orientation = Inr coords
          \<and> (\<forall>y. 0 \<le> y \<and> y < height \<longrightarrow>
                int (length (filter
                    (\<lambda>c. gridZ c = (if FLAT_TOP = orientation then y - height div 4 else y))
                    coords))
                = 2 * (height div 2) - \<bar>height div 2 - y\<bar> + 1)
          \<and> int (length (filter
              (\<lambda>c. gridZ c = (if FLAT_TOP = orientation then (height div 2) - height div 4 else (height div 2)))
              coords)) = height
          \<and> (\<forall>y. 0 \<le> y \<and> y < height \<longrightarrow>
                length (filter
                    (\<lambda>c. gridZ c = (if FLAT_TOP = orientation then y - height div 4 else y))
                    coords)
                \<le> length (filter
                    (\<lambda>c. gridZ c = (if FLAT_TOP = orientation then (height div 2) - height div 4 else (height div 2)))
                    coords))
          \<and> (\<forall>y. 0 \<le> y \<and> y < height \<longrightarrow>
                length (filter
                    (\<lambda>c. gridZ c = (if FLAT_TOP = orientation then y - height div 4 else y))
                    coords)
                = length (filter
                    (\<lambda>c. gridZ c = (if FLAT_TOP = orientation then (height - 1 - y) - height div 4 else (height - 1 - y)))
                    coords))"
    by (intro exI [of _ coords] conjI) blast+
qed

theorem hexagon_row_lengths_witness:
  "check_size_hexagon 5 5 = Inr ()
   \<and> (5::int) \<le> 2 ^ 53
   \<and> (\<exists>coords. fetch_grid_coords_hexagon 5 5 ''FLAT_TOP'' = Inr coords
         \<and> int (length (filter (\<lambda>c. gridZ c = 1 - 1) coords)) = 4
         \<and> int (length (filter (\<lambda>c. gridZ c = 2 - 1) coords)) = 5
         \<and> length (filter (\<lambda>c. gridZ c = 1 - 1) coords)
             = length (filter (\<lambda>c. gridZ c = 3 - 1) coords))"
proof -
  have ok: "check_size_hexagon 5 5 = Inr () \<and> (5::int) \<le> 2 ^ 53"
    by (simp add: check_size_hexagon_ok_iff)
  have flat: "FLAT_TOP = ''FLAT_TOP''" by (simp add: FLAT_TOP_def)
  from hexagon_row_lengths [of 5 5 "''FLAT_TOP''"] ok
  have "\<exists>coords. fetch_grid_coords_hexagon 5 5 ''FLAT_TOP'' = Inr coords
          \<and> (\<forall>y. 0 \<le> y \<and> y < 5 \<longrightarrow>
                int (length (filter
                    (\<lambda>c. gridZ c = (if FLAT_TOP = ''FLAT_TOP'' then y - 5 div 4 else y))
                    coords))
                = 2 * (5 div 2) - \<bar>5 div 2 - y\<bar> + 1)
          \<and> int (length (filter
              (\<lambda>c. gridZ c = (if FLAT_TOP = ''FLAT_TOP'' then (5 div 2) - 5 div 4 else (5 div 2)))
              coords)) = 5
          \<and> (\<forall>y. 0 \<le> y \<and> y < 5 \<longrightarrow>
                length (filter
                    (\<lambda>c. gridZ c = (if FLAT_TOP = ''FLAT_TOP'' then y - 5 div 4 else y))
                    coords)
                \<le> length (filter
                    (\<lambda>c. gridZ c = (if FLAT_TOP = ''FLAT_TOP'' then (5 div 2) - 5 div 4 else (5 div 2)))
                    coords))
          \<and> (\<forall>y. 0 \<le> y \<and> y < 5 \<longrightarrow>
                length (filter
                    (\<lambda>c. gridZ c = (if FLAT_TOP = ''FLAT_TOP'' then y - 5 div 4 else y))
                    coords)
                = length (filter
                    (\<lambda>c. gridZ c = (if FLAT_TOP = ''FLAT_TOP'' then (5 - 1 - y) - 5 div 4 else (5 - 1 - y)))
                    coords))"
    by blast
  then obtain coords where eq: "fetch_grid_coords_hexagon 5 5 ''FLAT_TOP'' = Inr coords"
    and len: "\<forall>y. 0 \<le> y \<and> y < 5 \<longrightarrow>
                int (length (filter
                    (\<lambda>c. gridZ c = (if FLAT_TOP = ''FLAT_TOP'' then y - 5 div 4 else y))
                    coords))
                = 2 * (5 div 2) - \<bar>5 div 2 - y\<bar> + 1"
    and sym: "\<forall>y. 0 \<le> y \<and> y < 5 \<longrightarrow>
                length (filter
                    (\<lambda>c. gridZ c = (if FLAT_TOP = ''FLAT_TOP'' then y - 5 div 4 else y))
                    coords)
                = length (filter
                    (\<lambda>c. gridZ c = (if FLAT_TOP = ''FLAT_TOP'' then (5 - 1 - y) - 5 div 4 else (5 - 1 - y)))
                    coords)"
    by blast
  from len [rule_format, of 1] len [rule_format, of 2] sym [rule_format, of 1] eq ok
  show ?thesis by (simp add: flat)
qed

section \<open>The rows of the hexagon\<close>

lemma inexact_head_flat:
  "\<exists>rest. fetch_grid_coords_hexagon (2 ^ 53 + 3) (2 ^ 53 + 3) FLAT_TOP
     = Inr (CubeCoordinate (2 ^ 52 + 2) (- (2 ^ 51 + 1)) # rest)"
proof -
  have r: "0 \<le> floor_div_float (2 ^ 53 + 3) 2" and pos: "(0::int) < 2 ^ 53 + 3"
    by (simp_all only: inexact_size(2)) simp_all
  from hexagon_head [OF inexact_size(1) pos r, of "2 ^ 53 + 3" FLAT_TOP]
  show ?thesis
    by (simp only: hexagon_start_x_def hexagon_z_def inexact_size(2,3) if_True) simp
qed

lemma inexact_head_pointy:
  "\<exists>rest. fetch_grid_coords_hexagon (2 ^ 53 + 3) (2 ^ 53 + 3) ''POINTY_TOP''
     = Inr (CubeCoordinate (2 ^ 51 + 1) 0 # rest)"
proof -
  have r: "0 \<le> floor_div_float (2 ^ 53 + 3) 2" and pos: "(0::int) < 2 ^ 53 + 3"
    by (simp_all only: inexact_size(2)) simp_all
  have other: "FLAT_TOP \<noteq> ''POINTY_TOP''" by (simp add: FLAT_TOP_def)
  from hexagon_head [OF inexact_size(1) pos r, of "2 ^ 53 + 3" "''POINTY_TOP''"]
  show ?thesis
    by (simp only: hexagon_start_x_def hexagon_z_def inexact_size(4) other if_False)
qed

text \<open>
  Claim C3, as stated: each row \<open>y\<close> starts at \<open>max(startX, startX - hexRadius)\<close> with
  the \<open>startX\<close> that is decremented after each row. The code clamps at \<open>min_x\<close>,
  computed once from the initial \<open>start_x\<close>; below the middle row the two differ. For
  size 3, pointy-top, the last row of the code is \<open>x = 0, 1\<close> and the stated one
  \<open>x = -1, 0\<close>. The code also takes \<open>hexRadius\<close>, \<open>startX\<close> and the \<open>z\<close> offset from
  doubles: for the valid size \<open>2^53 + 3\<close>, flat-top, its first coordinate is
  \<open>(2^52 + 2, - (2^51 + 1))\<close>, where \<open>floor(gridSize / 2)\<close> and \<open>- floor(gridSize / 4)\<close>
  give \<open>(2^52 + 1, - 2^51)\<close>.
\<close>

theorem hexagon_rows_as_stated_counterexample:
  "fetch_grid_coords_hexagon 3 3 ''POINTY_TOP''
     = Inr [CubeCoordinate 1 0, CubeCoordinate 2 0,
            CubeCoordinate 0 1, CubeCoordinate 1 1, CubeCoordinate 2 1,
            CubeCoordinate 0 2, CubeCoordinate 1 2]
   \<and> hexagon_coords_spec 3 ''POINTY_TOP''
     = [CubeCoordinate 1 0, CubeCoordinate 2 0,
        CubeCoordinate 0 1, CubeCoordinate 1 1, CubeCoordinate 2 1,
        CubeCoordinate (- 1) 2, CubeCoordinate 0 2]
   \<and> fetch_grid_coords_hexagon 3 3 ''POINTY_TOP'' \<noteq> Inr (hexagon_coords_spec 3 ''POINTY_TOP'')
   \<and> check_size_hexagon (2 ^ 53 + 3) (2 ^ 53 + 3) = Inr ()
   \<and> map_sum id hd (fetch_grid_coords_hexagon (2 ^ 53 + 3) (2 ^ 53 + 3) FLAT_TOP)
       = Inr (CubeCoordinate (2 ^ 52 + 2) (- (2 ^ 51 + 1)))
   \<and> CubeCoordinate (2 ^ 52 + 2) (- (2 ^ 51 + 1))
       \<noteq> CubeCoordinate ((2 ^ 53 + 3) div 2) (0 - (2 ^ 53 + 3) div 4)"
proof -
  have small: "\<bar>3::int\<bar> \<le> 2 ^ 53" by simp
  have code: "fetch_grid_coords_hexagon 3 3 ''POINTY_TOP''
     = Inr [CubeCoordinate 1 0, CubeCoordinate 2 0,
            CubeCoordinate 0 1, CubeCoordinate 1 1, CubeCoordinate 2 1,
            CubeCoordinate 0 2, CubeCoordinate 1 2]"
    by (simp add: hexagon_coords [OF float_fits_exact [OF small]] hexagon_span_def
        hexagon_z_exact [OF small] hexagon_start_x_exact [OF small]
        floor_div_float_exact [OF small] FLAT_TOP_def round_quarter_def upto_rec1)
  have spec: "hexagon_coords_spec 3 ''POINTY_TOP''
     = [CubeCoordinate 1 0, CubeCoordinate 2 0,
        CubeCoordinate 0 1, CubeCoordinate 1 1, CubeCoordinate 2 1,
        CubeCoordinate (- 1) 2, CubeCoordinate 0 2]"
    by (simp add: hexagon_coords_spec_def hexagon_row_spec_def FLAT_TOP_def
        round_quarter_def upto_rec1)
  from inexact_head_flat obtain rest
    where "fetch_grid_coords_hexagon (2 ^ 53 + 3) (2 ^ 53 + 3) FLAT_TOP
     = Inr (CubeCoordinate (2 ^ 52 + 2) (- (2 ^ 51 + 1)) # rest)" ..
  then have big: "map_sum id hd (fetch_grid_coords_hexagon (2 ^ 53 + 3) (2 ^ 53 + 3) FLAT_TOP)
       = Inr (CubeCoordinate (2 ^ 52 + 2) (- (2 ^ 51 + 1)))"
    by simp
  have "CubeCoordinate (2 ^ 52 + 2) (- (2 ^ 51 + 1))
       \<noteq> CubeCoordinate ((2 ^ 53 + 3) div 2) (0 - (2 ^ 53 + 3) div 4)"
    by simp
  with big inexact_size(5) show ?thesis unfolding code spec by simp
qed

text \<open>
  Claim C3, amended. For every valid hexagon size (width equal to height, odd,
  positive) with \<open>height \<le> 2^53\<close> (the sizes for which the code's double-precision
  divisions are exact) and every orientation, the Hexagon strategy emits, for each row
  \<open>y\<close> in \<open>[0, gridSize)\<close>, the coordinates \<open>CubeCoordinate x z\<close> for \<open>x\<close> from
  \<open>max(startX - y, minX)\<close> through \<open>max(startX - y, minX) + 2 * hexRadius - distFromMid\<close>,
  where \<open>startX\<close> is the initial value (\<open>gridSize div 2\<close> for flat-top,
  \<open>round(gridSize / 4)\<close> otherwise), \<open>minX = startX - hexRadius\<close> is fixed before the
  first row, \<open>distFromMid = \<bar>hexRadius - y\<bar>\<close>, and \<open>z = y - gridSize div 4\<close> for
  flat-top, otherwise \<open>z = y\<close>.
\<close>

theorem hexagon_rows:
  "check_size_hexagon width height = Inr () \<and> height \<le> 2 ^ 53 \<longrightarrow>
     (let gridSize = height;
          hexRadius = gridSize div 2;
          startX = (if FLAT_TOP = orientation then gridSize div 2 else round_quarter gridSize);
          minX = startX - hexRadius
      in fetch_grid_coords_hexagon width height orientation
           = Inr (concat (map (\<lambda>y.
                 map (\<lambda>x. CubeCoordinate x
                             (if FLAT_TOP = orientation then y - gridSize div 4 else y))
                   [max (startX - y) minX
                    ..max (startX - y) minX + 2 * hexRadius - \<bar>hexRadius - y\<bar>])
               [0..gridSize - 1])))"
proof
  assume "check_size_hexagon width height = Inr () \<and> height \<le> 2 ^ 53"
  then have small: "\<bar>height\<bar> \<le> 2 ^ 53" by (simp add: check_size_hexagon_ok_iff)
  show "let gridSize = height;
          hexRadius = gridSize div 2;
          startX = (if FLAT_TOP = orientation then gridSize div 2 else round_quarter gridSize);
          minX = startX - hexRadius
      in fetch_grid_coords_hexagon width height orientation
           = Inr (concat (map (\<lambda>y.
                 map (\<lambda>x. CubeCoordinate x
                             (if FLAT_TOP = orientation then y - gridSize div 4 else y))
                   [max (startX - y) minX
                    ..max (startX - y) minX + 2 * hexRadius - \<bar>hexRadius - y\<bar>])
               [0..gridSize - 1]))"
    by (simp add: hexagon_coords [OF float_fits_exact [OF small]] hexagon_span_def
        hexagon_z_exact [OF small] hexagon_start_x_exact [OF small]
        floor_div_float_exact [OF small] Let_def)
qed

theorem hexagon_rows_witness:
  "check_size_hexagon 5 5 = Inr ()
   \<and> (5::int) \<le> 2 ^ 53
   \<and> fetch_grid_coords_hexagon 5 5 ''FLAT_TOP''
       = Inr [CubeCoordinate 2 (- 1), CubeCoordinate 3 (- 1), CubeCoordinate 4 (- 1),
              CubeCoordinate 1 0, CubeCoordinate 2 0, CubeCoordinate 3 0, CubeCoordinate 4 0,
              CubeCoordinate 0 1, CubeCoordinate 1 1, CubeCoordinate 2 1, CubeCoordinate 3 1,
              CubeCoordinate 4 1,
              CubeCoordinate 0 2, CubeCoordinate 1 2, CubeCoordinate 2 2, CubeCoordinate 3 2,
              CubeCoordinate 0 3, CubeCoordinate 1 3, CubeCoordinate 2 3]"
proof -
  have ok: "check_size_hexagon 5 5 = Inr () \<and> (5::int) \<le> 2 ^ 53"
    by (simp add: check_size_hexagon_ok_iff)
  from hexagon_rows [of 5 5 "''FLAT_TOP''"] ok
  have "fetch_grid_coords_hexagon 5 5 ''FLAT_TOP''
      = Inr (concat (map (\<lambda>y. map (\<lambda>x. CubeCoordinate x (y - 5 div 4))
                [max (5 div 2 - y) (5 div 2 - 5 div 2)
                 ..max (5 div 2 - y) (5 div 2 - 5 div 2) + 2 * (5 div 2) - \<bar>5 div 2 - y\<bar>])
              [0..5 - 1]))"
    by (simp add: FLAT_TOP_def Let_def)
  then show ?thesis using ok by (simp add: upto_rec1)
qed

section \<open>Unused parameters\<close>

text \<open>
  Claim C8. The width has no effect on the Triangle and Hexagon strategies, and the
  orientation has none on the Triangle and Trapezoid strategies: changing it leaves the
  returned sequence the same.
\<close>

theorem unused_parameters:
  "fetch_grid_coords_triangle w1 height orientation
     = fetch_grid_coords_triangle w2 height orientation
   \<and> fetch_grid_coords_hexagon w1 height orientation
     = fetch_grid_coords_hexagon w2 height orientation
   \<and> fetch_grid_coords_triangle width height o1 = fetch_grid_coords_triangle width height o2
   \<and> fetch_grid_coords_trapezoid width height o1 = fetch_grid_coords_trapezoid width height o2"
  by (simp add: fetch_grid_coords_triangle_def fetch_grid_coords_hexagon_def
      fetch_grid_coords_trapezoid_def)

section \<open>The two orientations of the hexagon\<close>

lemma hexagon_span_shift:
  "hexagon_span height r (m + d) FLAT_TOP (s + d) y
     = map (\<lambda>c. CubeCoordinate (gridX c + d) (gridZ c - floor_div_float height 4))
         (hexagon_span height r m orientation s y)"
  if "orientation \<noteq> FLAT_TOP"
proof -
  have "max (s + d) (m + d) = max s m + d" by simp
  then have "[max (s + d) (m + d)..max (s + d) (m + d) + 2 * r - \<bar>r - y\<bar>]
      = map (\<lambda>x. x + d) [max s m..max s m + 2 * r - \<bar>r - y\<bar>]"
    using upto_shift [of "max s m" d "max s m + 2 * r - \<bar>r - y\<bar>"]
    by (simp add: algebra_simps)
  with that show ?thesis
    by (auto simp: hexagon_span_def hexagon_z_def)
qed

lemma hexagon_translate_general:
  assumes other: "orientation \<noteq> FLAT_TOP"
  shows "fetch_grid_coords_hexagon width height FLAT_TOP
       = map_sum id
           (map (\<lambda>c. CubeCoordinate
                   (gridX c + (floor_div_float height 2 - round_quarter (round_to_double height)))
                   (gridZ c - floor_div_float height 4)))
           (fetch_grid_coords_hexagon width height orientation)"
proof (cases "float_overflows height")
  case True
  then show ?thesis by (simp add: hexagon_overflow)
next
  case False
  have row: "hexagon_span height (floor_div_float height 2) 0 FLAT_TOP
                 (floor_div_float height 2 - y) y
        = map (\<lambda>c. CubeCoordinate
                   (gridX c + (floor_div_float height 2 - round_quarter (round_to_double height)))
                   (gridZ c - floor_div_float height 4))
            (hexagon_span height (floor_div_float height 2)
               (round_quarter (round_to_double height) - floor_div_float height 2) orientation
               (round_quarter (round_to_double height) - y) y)" for y
    using hexagon_span_shift [OF other, of height "floor_div_float height 2"
        "round_quarter (round_to_double height) - floor_div_float height 2"
        "floor_div_float height 2 - round_quarter (round_to_double height)"
        "round_quarter (round_to_double height) - y" y]
    by (simp add: algebra_simps)
  from other have neq: "FLAT_TOP \<noteq> orientation" by auto
  show ?thesis
    by (simp add: hexagon_coords [OF False] hexagon_start_x_def neq map_concat row o_def)
qed

text \<open>
  Claim C10, as stated: for every height the flat-top sequence is the other one
  shifted by \<open>floor(h / 2) - round(h / 4)\<close> in \<open>gridX\<close> and by \<open>- floor(h / 4)\<close> in
  \<open>gridZ\<close>. The code takes these three values from the double nearest to the height:
  for the height \<open>2^53 + 3\<close> the flat-top sequence starts with \<open>(2^52 + 2, - (2^51 + 1))\<close>
  and the pointy-top one with \<open>(2^51 + 1, 0)\<close>, which the stated shift \<open>(2^51, - 2^51)\<close>
  takes to \<open>(2^52 + 1, - 2^51)\<close>.
\<close>

theorem hexagon_orientations_translate_as_stated_counterexample:
  "''POINTY_TOP'' \<noteq> FLAT_TOP
   \<and> map_sum id hd (fetch_grid_coords_hexagon (2 ^ 53 + 3) (2 ^ 53 + 3) FLAT_TOP)
       = Inr (CubeCoordinate (2 ^ 52 + 2) (- (2 ^ 51 + 1)))
   \<and> map_sum id hd (fetch_grid_coords_hexagon (2 ^ 53 + 3) (2 ^ 53 + 3) ''POINTY_TOP'')
       = Inr (CubeCoordinate (2 ^ 51 + 1) 0)
   \<and> (2 ^ 53 + 3) div 2 - round_quarter (2 ^ 53 + 3) = 2 ^ 51
   \<and> (2 ^ 53 + 3) div 4 = (2 ^ 51 :: int)
   \<and> fetch_grid_coords_hexagon (2 ^ 53 + 3) (2 ^ 53 + 3) FLAT_TOP
       \<noteq> map_sum id
           (map (\<lambda>c. CubeCoordinate
                   (gridX c + ((2 ^ 53 + 3) div 2 - round_quarter (2 ^ 53 + 3)))
                   (gridZ c - (2 ^ 53 + 3) div 4)))
           (fetch_grid_coords_hexagon (2 ^ 53 + 3) (2 ^ 53 + 3) ''POINTY_TOP'')"
proof -
  have other: "''POINTY_TOP'' \<noteq> FLAT_TOP" by (simp add: FLAT_TOP_def)
  have shift: "(2 ^ 53 + 3) div 2 - round_quarter (2 ^ 53 + 3) = 2 ^ 51"
    "(2 ^ 53 + 3) div 4 = (2 ^ 51 :: int)"
    by (simp_all add: round_quarter_def)
  from inexact_head_flat obtain rest1
    where flat: "fetch_grid_coords_hexagon (2 ^ 53 + 3) (2 ^ 53 + 3) FLAT_TOP
     = Inr (CubeCoordinate (2 ^ 52 + 2) (- (2 ^ 51 + 1)) # rest1)" ..
  from inexact_head_pointy obtain rest2
    where pointy: "fetch_grid_coords_hexagon (2 ^ 53 + 3) (2 ^ 53 + 3) ''POINTY_TOP''
     = Inr (CubeCoordinate (2 ^ 51 + 1) 0 # rest2)" ..
  show ?thesis
    unfolding shift flat pointy using other by simp
qed

text \<open>
  Claim C10, amended. For every height \<open>h\<close> with \<open>\<bar>h\<bar> \<le> 2^53\<close> (the heights for which
  the code's double-precision divisions are exact), the sequence the Hexagon strategy
  returns for the flat-top orientation is the one it returns for any other orientation
  with every coordinate shifted by \<open>h div 2 - round(h / 4)\<close> in \<open>gridX\<close> and by
  \<open>- (h div 4)\<close> in \<open>gridZ\<close>, in the same order.
\<close>

theorem hexagon_orientations_translate:
  "orientation \<noteq> FLAT_TOP \<and> \<bar>height\<bar> \<le> 2 ^ 53 \<longrightarrow>
     fetch_grid_coords_hexagon width height FLAT_TOP
       = map_sum id
           (map (\<lambda>c. CubeCoordinate (gridX c + (height div 2 - round_quarter height))
                                     (gridZ c - height div 4)))
           (fetch_grid_coords_hexagon width height orientation)"
proof
  assume "orientation \<noteq> FLAT_TOP \<and> \<bar>height\<bar> \<le> 2 ^ 53"
  then have other: "orientation \<noteq> FLAT_TOP" and small: "\<bar>height\<bar> \<le> 2 ^ 53" by simp_all
  from hexagon_translate_general [OF other, of width height]
  show "fetch_grid_coords_hexagon width height FLAT_TOP
       = map_sum id
           (map (\<lambda>c. CubeCoordinate (gridX c + (height div 2 - round_quarter height))
                                     (gridZ c - height div 4)))
           (fetch_grid_coords_hexagon width height orientation)"
    by (simp only: floor_div_float_exact [OF small] round_to_double_exact [OF small])
qed

theorem hexagon_orientations_translate_witness:
  "''POINTY_TOP'' \<noteq> FLAT_TOP
   \<and> \<bar>5::int\<bar> \<le> 2 ^ 53
   \<and> fetch_grid_coords_hexagon 5 5 FLAT_TOP
       = map_sum id (map (\<lambda>c. CubeCoordinate (gridX c + 1) (gridZ c - 1)))
           (fetch_grid_coords_hexagon 5 5 ''POINTY_TOP'')"
proof -
  have other: "''POINTY_TOP'' \<noteq> FLAT_TOP \<and> \<bar>5::int\<bar> \<le> 2 ^ 53" by (simp add: FLAT_TOP_def)
  have d: "(5::int) div 2 - round_quarter 5 = 1" "(5::int) div 4 = 1"
    by (simp_all add: round_quarter_def)
  from hexagon_orientations_translate [of "''POINTY_TOP''" 5 5] other
  show ?thesis by (simp only: d) simp
qed

section \<open>Sizes that validation would reject\<close>

text \<open>
  Claim C9, as stated: the Hexagon strategy returns a list for every integer height.
  It raises \<open>OverflowError\<close> when the height is too large in magnitude to be converted
  to a float, as for the height \<open>- 2^1024\<close>.
\<close>

theorem hexagon_total_counterexample:
  "fetch_grid_coords_hexagon 1 (- (2 ^ 1024)) ''POINTY_TOP'' = Inl OverflowError"
  by (simp add: fetch_grid_coords_hexagon_def float_overflows_def)

text \<open>
  Claim C9, amended. \<open>fetch_grid_coords\<close> does not validate sizes. For every integer
  width and height and every orientation string, the Triangle and Trapezoid strategies
  return a list, empty whenever \<open>height \<le> 0\<close>; the Hexagon strategy returns a list
  whenever \<open>\<bar>height\<bar> < 2^1024 - 2^970\<close>, empty whenever \<open>height \<le> 0\<close>, and raises
  \<open>OverflowError\<close> otherwise; the Rectangle strategy returns the empty list, whatever
  the coordinate converter is, whenever \<open>width \<le> 0\<close> or \<open>height \<le> 0\<close>.
\<close>

theorem fetch_grid_coords_unvalidated:
  "(height \<le> 0 \<longrightarrow> fetch_grid_coords_triangle width height orientation = [])
   \<and> (height \<le> 0 \<longrightarrow> fetch_grid_coords_trapezoid width height orientation = [])
   \<and> (if \<bar>height\<bar> < 2 ^ 1024 - 2 ^ 970
       then \<exists>coords. fetch_grid_coords_hexagon width height orientation = Inr coords
              \<and> (height \<le> 0 \<longrightarrow> coords = [])
       else fetch_grid_coords_hexagon width height orientation = Inl OverflowError)
   \<and> (width \<le> 0 \<or> height \<le> 0 \<longrightarrow>
        fetch_grid_coords_rectangle cx cz width height orientation = [])"
proof (intro conjI impI)
  assume "height \<le> 0"
  then show "fetch_grid_coords_triangle width height orientation = []"
    by (simp add: triangle_coords)
next
  assume "height \<le> 0"
  then show "fetch_grid_coords_trapezoid width height orientation = []"
    by (simp add: trapezoid_coords)
next
  assume "width \<le> 0 \<or> height \<le> 0"
  then show "fetch_grid_coords_rectangle cx cz width height orientation = []"
    by (auto simp: rectangle_coords)
next
  show "if \<bar>height\<bar> < 2 ^ 1024 - 2 ^ 970
       then \<exists>coords. fetch_grid_coords_hexagon width height orientation = Inr coords
              \<and> (height \<le> 0 \<longrightarrow> coords = [])
       else fetch_grid_coords_hexagon width height orientation = Inl OverflowError"
  proof (cases "float_overflows height")
    case True
    then show ?thesis by (simp add: hexagon_overflow float_overflows_def)
  next
    case False
    then have "\<bar>height\<bar> < 2 ^ 1024 - 2 ^ 970" by (simp add: float_overflows_def)
    then show ?thesis by (simp add: hexagon_coords [OF False])
  qed
qed

theorem fetch_grid_coords_unvalidated_witness:
  "(- 2::int) \<le> 0
   \<and> fetch_grid_coords_triangle 3 (- 2) ''FLAT_TOP'' = []
   \<and> fetch_grid_coords_trapezoid 3 (- 2) ''FLAT_TOP'' = []
   \<and> \<bar>- 2::int\<bar> < 2 ^ 1024 - 2 ^ 970
   \<and> fetch_grid_coords_hexagon 3 (- 2) ''FLAT_TOP'' = Inr []
   \<and> fetch_grid_coords_rectangle (\<lambda>x y t. x - y div 2) (\<lambda>x y t. y) 3 (- 2) ''FLAT_TOP'' = []"
proof -
  have small: "\<bar>- 2::int\<bar> < 2 ^ 1024 - 2 ^ 970" by simp
  from fetch_grid_coords_unvalidated
    [of "- 2" 3 "''FLAT_TOP''" "\<lambda>x y t. x - y div 2" "\<lambda>x y t. y"] small
  show ?thesis by auto
qed

section \<open>What a successful build records\<close>

lemma populate_storage_effects:
  "populate_storage grid gdata coords log =
     (grid\<lparr>storage := foldl (\<lambda>st coord. add_coord_with_data st coord
                            \<lparr>hexagon_grid_data = gdata, hexagon_coord = coord\<rparr>)
                        (storage grid) coords,
            hexagons := hexagons grid
               @ map (\<lambda>coord. \<lparr>hexagon_grid_data = gdata, hexagon_coord = coord\<rparr>) coords\<rparr>,
      log @ concat (map (\<lambda>coord.
               [New_HexagonImpl \<lparr>hexagon_grid_data = gdata, hexagon_coord = coord\<rparr>,
                Add_coord_with_data coord \<lparr>hexagon_grid_data = gdata, hexagon_coord = coord\<rparr>,
                Hexagons_append \<lparr>hexagon_grid_data = gdata, hexagon_coord = coord\<rparr>])
             coords))"
  unfolding populate_storage_def
  by (induction coords arbitrary: grid log) (simp_all add: Let_def)

lemma build_triangle_log:
  assumes "check_size_triangle width height = Inr ()"
  shows "snd (build_triangle orientation radius width height log)
     = log @ Fetch_grid_coords get_name_triangle width height orientation
         # concat (map (\<lambda>coord.
               [New_HexagonImpl \<lparr>hexagon_grid_data =
                    build_grid_data orientation radius width height, hexagon_coord = coord\<rparr>,
                Add_coord_with_data coord \<lparr>hexagon_grid_data =
                    build_grid_data orientation radius width height, hexagon_coord = coord\<rparr>,
                Hexagons_append \<lparr>hexagon_grid_data =
                    build_grid_data orientation radius width height, hexagon_coord = coord\<rparr>])
             (fetch_grid_coords_triangle width height orientation))"
  using assms by (simp add: build_triangle_def Let_def populate_storage_effects)

section \<open>Failed builds\<close>

text \<open>
  Claim C5. For each of the four build operations, if the strategy's \<open>check_size\<close>
  raises for the given width and height, the build raises the same error and the log
  of effects is unchanged: no coordinate has been enumerated, no hexagon record
  constructed, nothing inserted into the storage and nothing appended to the hexagon
  list.
\<close>

theorem failed_build_no_mutation:
  "(check_size_rectangle width height = Inl e \<longrightarrow>
      build_rectangle cx cz orientation radius width height log = (Inl e, log))
   \<and> (check_size_hexagon width height = Inl e \<longrightarrow>
      build_hexagon orientation radius width height log = (Inl e, log))
   \<and> (check_size_triangle width height = Inl e \<longrightarrow>
      build_triangle orientation radius width height log = (Inl e, log))
   \<and> (check_size_trapezoid width height = Inl e \<longrightarrow>
      build_trapezoid orientation radius width height log = (Inl e, log))"
  by (simp add: build_rectangle_def build_hexagon_def build_triangle_def build_trapezoid_def
      Let_def)


theorem failed_build_no_mutation_witness:
  "check_size_rectangle 0 3 = Inl (GridLayoutException
      ''Attempted to build a grid with invalid size 0, 3. Rectangle dimensions must be larger than zero.'')
   \<and> build_rectangle (\<lambda>x y t. x - y div 2) (\<lambda>x y t. y) ''FLAT_TOP'' (1::int) 0 3 []
       = (Inl (GridLayoutException
      ''Attempted to build a grid with invalid size 0, 3. Rectangle dimensions must be larger than zero.''), [])
   \<and> check_size_hexagon 4 4 = Inl (GridLayoutException
      ''Attempted to build a grid with invalid size 4, 4. Hexagon dimensions must be equal, odd, and larger than zero.'')
   \<and> build_hexagon ''FLAT_TOP'' (1::int) 4 4 []
       = (Inl (GridLayoutException
      ''Attempted to build a grid with invalid size 4, 4. Hexagon dimensions must be equal, odd, and larger than zero.''), [])
   \<and> check_size_triangle 3 4 = Inl (GridLayoutException
      ''Attempted to build a grid with invalid size 3, 4. Triangle dimensions must be equal and larger than zero.'')
   \<and> build_triangle ''FLAT_TOP'' (1::int) 3 4 []
       = (Inl (GridLayoutException
      ''Attempted to build a grid with invalid size 3, 4. Triangle dimensions must be equal and larger than zero.''), [])
   \<and> check_size_trapezoid 5 (- 1) = Inl (GridLayoutException
      ''Attempted to build a grid with invalid size 5, -1. Trapezoid dimensions must be larger than zero.'')
   \<and> build_trapezoid ''FLAT_TOP'' (1::int) 5 (- 1) []
       = (Inl (GridLayoutException
      ''Attempted to build a grid with invalid size 5, -1. Trapezoid dimensions must be larger than zero.''), [])"
proof -
  have digits: "str_nat 0 = ''0''" "str_nat (Suc 0) = ''1''" "str_nat 3 = ''3''" "str_nat 4 = ''4''"
    "str_nat 5 = ''5''"
    by code_simp+
  have r: "check_size_rectangle 0 3 = Inl (GridLayoutException
      ''Attempted to build a grid with invalid size 0, 3. Rectangle dimensions must be larger than zero.'')"
    by (simp add: check_size_rectangle_def invalid_size_def str_small digits del: str_nat.simps)
  have h: "check_size_hexagon 4 4 = Inl (GridLayoutException
      ''Attempted to build a grid with invalid size 4, 4. Hexagon dimensions must be equal, odd, and larger than zero.'')"
    by (simp add: check_size_hexagon_def invalid_size_def str_small digits del: str_nat.simps)
  have t: "check_size_triangle 3 4 = Inl (GridLayoutException
      ''Attempted to build a grid with invalid size 3, 4. Triangle dimensions must be equal and larger than zero.'')"
    by (simp add: check_size_triangle_def invalid_size_def str_small digits del: str_nat.simps)
  have z: "check_size_trapezoid 5 (- 1) = Inl (GridLayoutException
      ''Attempted to build a grid with invalid size 5, -1. Trapezoid dimensions must be larger than zero.'')"
    by (simp add: check_size_trapezoid_def invalid_size_def str_small digits del: str_nat.simps)
  note inst = failed_build_no_mutation [where radius = "1::int" and log = "[]"
      and orientation = "''FLAT_TOP''" and cx = "\<lambda>x y t. x - y div 2" and cz = "\<lambda>x y t. y"]
  from inst [of 0 3] r
  have 1: "build_rectangle (\<lambda>x y t. x - y div 2) (\<lambda>x y t. y) ''FLAT_TOP'' (1::int) 0 3 []
       = (Inl (GridLayoutException
      ''Attempted to build a grid with invalid size 0, 3. Rectangle dimensions must be larger than zero.''), [])"
    by blast
  from inst [of 4 4] h
  have 2: "build_hexagon ''FLAT_TOP'' (1::int) 4 4 []
       = (Inl (GridLayoutException
      ''Attempted to build a grid with invalid size 4, 4. Hexagon dimensions must be equal, odd, and larger than zero.''), [])"
    by blast
  from inst [of 3 4] t
  have 3: "build_triangle ''FLAT_TOP'' (1::int) 3 4 []
       = (Inl (GridLayoutException
      ''Attempted to build a grid with invalid size 3, 4. Triangle dimensions must be equal and larger than zero.''), [])"
    by blast
  from inst [of 5 "- 1"] z
  have 4: "build_trapezoid ''FLAT_TOP'' (1::int) 5 (- 1) []
       = (Inl (GridLayoutException
      ''Attempted to build a grid with invalid size 5, -1. Trapezoid dimensions must be larger than zero.''), [])"
    by blast
  from r h t z 1 2 3 4 show ?thesis by blast
qed

end
